theory Spec2Isabelle
  imports Complex_Main "HOL-Library.Word"
begin

section \<open>Echoes recorder: the recording session, its parameters and the record store\<close>

text \<open>
  The development embeds the two recorder components of the extension (the plain one and the
  one with level visualisation), the record store of \<^verbatim>\<open>utils/storage.ts\<close> and the
  transcription handler of \<^verbatim>\<open>recordings/Recordings.tsx\<close>.

  Conventions. JavaScript strings are \<^typ>\<open>string\<close>; integral numbers are \<^typ>\<open>int\<close>;
  \<^verbatim>\<open>NaN\<close> is \<^term>\<open>None\<close> of an option type; a \<^verbatim>\<open>Uint8Array\<close> is a list of
  8-bit words; a \<^verbatim>\<open>Blob\<close> is the list of its bytes. A rejected promise or a thrown
  exception is the \<^term>\<open>Inl\<close> branch of a sum. React state and refs of a component are
  the fields of one record that every handler takes and returns.
\<close>

subsection \<open>Numbers as text\<close>

definition digitChar :: "nat \<Rightarrow> char" where
  "digitChar d = char_of (48 + d)"

text \<open>\<^verbatim>\<open>Number.prototype.toString()\<close> on a non-negative integer.\<close>

function natToString :: "nat \<Rightarrow> string" where
  "natToString n =
     (if n < 10 then [digitChar n] else natToString (n div 10) @ [digitChar (n mod 10)])"
  by pat_completeness auto
termination
  by (relation "measure id") auto

declare natToString.simps [simp del]

text \<open>\<^verbatim>\<open>toString()\<close> on an integer: a minus sign in front of the magnitude.\<close>

definition toString :: "int \<Rightarrow> string" where
  "toString i = (if i < 0 then CHR ''-'' # natToString (nat (- i)) else natToString (nat i))"

text \<open>\<^verbatim>\<open>s.padStart(n, c)\<close> with a one-character filler.\<close>

definition padStart :: "nat \<Rightarrow> char \<Rightarrow> string \<Rightarrow> string" where
  "padStart n c s = replicate (n - length s) c @ s"

text \<open>
  The remainder operator \<^verbatim>\<open>%\<close> of JavaScript truncates towards zero: the result has the
  sign of the dividend.
\<close>

definition jsRem :: "int \<Rightarrow> int \<Rightarrow> int" where
  "jsRem a b = (if a < 0 then - ((- a) mod \<bar>b\<bar>) else a mod \<bar>b\<bar>)"

subsection \<open>formatDuration\<close>

text \<open>
  \<^verbatim>\<open>
  const formatDuration = (seconds: number): string => {
    const hrs = Math.floor(seconds / 3600)
    const mins = Math.floor((seconds % 3600) / 60)
    const secs = seconds % 60
    if (hrs > 0) {
      return `${hrs}:${mins.toString().padStart(2, '0')}:${secs.toString().padStart(2, '0')}`
    }
    return `${mins.toString().padStart(2, '0')}:${secs.toString().padStart(2, '0')}`
  }
  \<close>
  \<^verbatim>\<open>Math.floor\<close> of a quotient of integers is \<open>div\<close> on \<^typ>\<open>int\<close>.
\<close>

definition formatDuration :: "int \<Rightarrow> string" where
  "formatDuration seconds =
     (let hrs = seconds div 3600;
          mins = jsRem seconds 3600 div 60;
          secs = jsRem seconds 60
      in if hrs > 0
         then toString hrs @ '':'' @ padStart 2 CHR ''0'' (toString mins) @ '':''
                @ padStart 2 CHR ''0'' (toString secs)
         else padStart 2 CHR ''0'' (toString mins) @ '':'' @ padStart 2 CHR ''0'' (toString secs))"

text \<open>
  The duration effect of the recorder: every second while recording,
  \<^verbatim>\<open>setDuration(Math.floor((Date.now() - startTimeRef.current) / 1000))\<close>.
\<close>

definition elapsedSeconds :: "int \<Rightarrow> int \<Rightarrow> int" where
  "elapsedSeconds now startTime = (now - startTime) div 1000"

subsection \<open>Session parameters\<close>

text \<open>
  \<^verbatim>\<open>URLSearchParams\<close> is the list of decoded name/value pairs of the query string;
  \<^verbatim>\<open>get\<close> returns the first value with the name, or null.
\<close>

type_synonym URLSearchParams = "(string \<times> string) list"

definition getParam :: "URLSearchParams \<Rightarrow> string \<Rightarrow> string option" where
  "getParam params name = map_of params name"

text \<open>\<^verbatim>\<open>x || d\<close> on a nullable string: null and the empty string are falsy.\<close>

definition orElse :: "string option \<Rightarrow> string \<Rightarrow> string" where
  "orElse x d = (case x of None \<Rightarrow> d | Some v \<Rightarrow> if v = [] then d else v)"

text \<open>
  A character of a query value stands for the code unit of the same number. The white
  space that \<^verbatim>\<open>parseInt\<close> skips is tab, line feed, vertical tab, form feed, carriage
  return, space and the no-break space U+00A0; the white space beyond U+00FF (U+1680,
  U+2000 to U+200A, U+2028, U+2029, U+202F, U+205F, U+3000, U+FEFF) has no character here.
\<close>

definition isWhiteSpace :: "char \<Rightarrow> bool" where
  "isWhiteSpace c = (of_char c \<in> {9::nat, 10, 11, 12, 13, 32, 160})"

definition isDigit :: "char \<Rightarrow> bool" where
  "isDigit c = (48 \<le> (of_char c :: nat) \<and> (of_char c :: nat) \<le> 57)"

definition digitsValue :: "string \<Rightarrow> nat" where
  "digitsValue ds = foldl (\<lambda>acc c. 10 * acc + (of_char c - 48)) 0 ds"

text \<open>
  \<^verbatim>\<open>parseInt(s, 10)\<close>: leading white space is skipped, one sign is read, then the longest
  run of decimal digits; with no digit the result is NaN (\<^term>\<open>None\<close>). The value is kept
  exact (a JavaScript number rounds beyond 2^53; rounding never turns a non-zero integer
  into zero, so the truthiness test of \<open>getParams\<close> is unaffected).
\<close>

definition parseInt :: "string \<Rightarrow> int option" where
  "parseInt s =
     (let t = dropWhile isWhiteSpace s;
          neg = (t \<noteq> [] \<and> hd t = CHR ''-'');
          u = (if t \<noteq> [] \<and> (hd t = CHR ''-'' \<or> hd t = CHR ''+'') then tl t else t);
          ds = takeWhile isDigit u
      in if ds = [] then None
         else Some (if neg then - int (digitsValue ds) else int (digitsValue ds)))"

text \<open>
  \<^verbatim>\<open>CaptureMode\<close> is a compile-time type only: \<^verbatim>\<open>params.get('mode') as CaptureMode\<close>
  checks nothing, so the mode of a parameter set is whatever string the query carries.
\<close>

record RecorderParams =
  mode :: string
  deviceId :: string
  tabId :: int

text \<open>
  \<^verbatim>\<open>
  const getParams = (): RecorderParams | null => {
    const params = new URLSearchParams(window.location.search)
    const mode = params.get('mode') as CaptureMode
    const deviceId = params.get('deviceId') || ''
    const tabId = parseInt(params.get('tabId') || '0', 10)
    if (!mode || !tabId) return null
    return { mode, deviceId, tabId }
  }
  \<close>
  \<^verbatim>\<open>!mode\<close> holds for null and for the empty string, \<^verbatim>\<open>!tabId\<close> for NaN and for zero.
\<close>

definition getParams :: "URLSearchParams \<Rightarrow> RecorderParams option" where
  "getParams params =
     (let m = getParam params ''mode'';
          d = orElse (getParam params ''deviceId'') '''';
          t = parseInt (orElse (getParam params ''tabId'') ''0'')
      in if m = None \<or> m = Some [] \<or> t = None \<or> t = Some 0 then None
         else Some \<lparr>mode = the m, deviceId = d, tabId = the t\<rparr>)"

subsection \<open>The record store (utils/storage.ts)\<close>

type_synonym Blob = "8 word list"

datatype TranscriptionStatus = Pending | Processing | Completed | Error

text \<open>
  \<^verbatim>\<open>interface Recording\<close>. The field names carry the prefix \<open>rec\<close> where the bare name
  is taken in HOL or by the session below.
\<close>

record Recording =
  recId :: string
  recName :: string
  recBlob :: Blob
  recDuration :: int
  recCreatedAt :: int
  recSize :: nat
  transcription :: "string option"
  transcriptionStatus :: "TranscriptionStatus option"

text \<open>\<^verbatim>\<open>Partial<Recording>\<close>: a field is \<^term>\<open>None\<close> when the key is absent.\<close>

record RecordingUpdates =
  setId :: "string option"
  setName :: "string option"
  setBlob :: "Blob option"
  setDuration :: "int option"
  setCreatedAt :: "int option"
  setSize :: "nat option"
  setTranscription :: "string option"
  setTranscriptionStatus :: "TranscriptionStatus option"

definition noUpdates :: RecordingUpdates where
  "noUpdates = \<lparr>setId = None, setName = None, setBlob = None, setDuration = None,
     setCreatedAt = None, setSize = None, setTranscription = None,
     setTranscriptionStatus = None\<rparr>"

text \<open>\<^verbatim>\<open>{ ...recording, ...updates }\<close>: a key of \<open>updates\<close> wins, every other field is kept.\<close>

definition spread :: "Recording \<Rightarrow> RecordingUpdates \<Rightarrow> Recording" where
  "spread r u =
     \<lparr>recId = (case setId u of None \<Rightarrow> recId r | Some v \<Rightarrow> v),
      recName = (case setName u of None \<Rightarrow> recName r | Some v \<Rightarrow> v),
      recBlob = (case setBlob u of None \<Rightarrow> recBlob r | Some v \<Rightarrow> v),
      recDuration = (case setDuration u of None \<Rightarrow> recDuration r | Some v \<Rightarrow> v),
      recCreatedAt = (case setCreatedAt u of None \<Rightarrow> recCreatedAt r | Some v \<Rightarrow> v),
      recSize = (case setSize u of None \<Rightarrow> recSize r | Some v \<Rightarrow> v),
      transcription = (case setTranscription u of None \<Rightarrow> transcription r | Some v \<Rightarrow> Some v),
      transcriptionStatus =
        (case setTranscriptionStatus u of None \<Rightarrow> transcriptionStatus r | Some v \<Rightarrow> Some v)\<rparr>"

text \<open>
  The object store \<^verbatim>\<open>recordings\<close> (key path \<^verbatim>\<open>id\<close>) is a map from keys to records.
  While \<open>broken\<close> is set, opening the database or the request reports an error, and the
  promise of the operation rejects (\<^verbatim>\<open>request.onerror = () => reject(request.error)\<close>).
\<close>

datatype StorageError = NotFound | ConstraintError | RequestError

record Database =
  objects :: "string \<rightharpoonup> Recording"
  broken :: bool

text \<open>\<^verbatim>\<open>s.slice(a, b)\<close> for indices \<open>0 \<le> a \<le> b\<close>.\<close>

definition slice :: "nat \<Rightarrow> nat \<Rightarrow> string \<Rightarrow> string" where
  "slice a b s = take (b - a) (drop a s)"

text \<open>
  What \<open>saveRecording\<close> reads from its environment: \<^verbatim>\<open>Date.now()\<close> for the id,
  \<^verbatim>\<open>Math.random().toString(36)\<close>, \<^verbatim>\<open>new Date().toISOString()\<close>, and
  \<^verbatim>\<open>Date.now()\<close> for \<open>createdAt\<close>.
\<close>

record SaveClock =
  idTime :: int
  random36 :: string
  isoTime :: string
  createdTime :: int

text \<open>
  \<^verbatim>\<open>
  const id = `rec-${Date.now()}-${Math.random().toString(36).slice(2, 9)}`
  const timestamp = new Date().toISOString().replace(/[:.]/g, '-').slice(0, 19)
  const recording = { id, name: customName || `Recording ${timestamp}`, blob, duration,
    createdAt: Date.now(), size: blob.size, transcriptionStatus: 'pending' }
  ... store.add(recording) ... resolve(recording) / reject(request.error)
  \<close>
  \<^verbatim>\<open>add\<close> fails with a constraint error when the key is already stored.
\<close>

definition saveRecording ::
  "SaveClock \<Rightarrow> Blob \<Rightarrow> int \<Rightarrow> string option \<Rightarrow> Database \<Rightarrow> StorageError + (Recording \<times> Database)"
where
  "saveRecording clk blob dur customName db =
     (if broken db then Inl RequestError
      else
        let ident = ''rec-'' @ toString (idTime clk) @ ''-'' @ slice 2 9 (random36 clk);
            timestamp = slice 0 19
              (map (\<lambda>c. if c = CHR '':'' \<or> c = CHR ''.'' then CHR ''-'' else c) (isoTime clk));
            recording =
              \<lparr>recId = ident,
               recName = orElse customName (''Recording '' @ timestamp),
               recBlob = blob,
               recDuration = dur,
               recCreatedAt = createdTime clk,
               recSize = length blob,
               transcription = None,
               transcriptionStatus = Some Pending\<rparr>
        in if objects db ident \<noteq> None then Inl ConstraintError
           else Inr (recording, db\<lparr>objects := (objects db)(ident \<mapsto> recording)\<rparr>))"

text \<open>
  \<^verbatim>\<open>
  const request = store.get(id)
  request.onsuccess = () => resolve(request.result || null)
  request.onerror = () => reject(request.error)
  \<close>
\<close>

definition getRecording :: "Database \<Rightarrow> string \<Rightarrow> StorageError + Recording option" where
  "getRecording db ident = (if broken db then Inl RequestError else Inr (objects db ident))"

text \<open>
  \<^verbatim>\<open>
  const recording = await getRecording(id)
  if (!recording) throw new Error('Recording not found')
  const updated = { ...recording, ...updates }
  ... store.put(updated) ...
  \<close>
  \<^verbatim>\<open>put\<close> stores the record under the key at its key path.
\<close>

definition updateRecording ::
  "Database \<Rightarrow> string \<Rightarrow> RecordingUpdates \<Rightarrow> StorageError + Database"
where
  "updateRecording db ident updates =
     (case getRecording db ident of
        Inl e \<Rightarrow> Inl e
      | Inr None \<Rightarrow> Inl NotFound
      | Inr (Some recording) \<Rightarrow>
          (let updated = spread recording updates
           in Inr (db\<lparr>objects := (objects db)(recId updated \<mapsto> updated)\<rparr>)))"

definition deleteRecording :: "Database \<Rightarrow> string \<Rightarrow> StorageError + Database" where
  "deleteRecording db ident =
     (if broken db then Inl RequestError
      else Inr (db\<lparr>objects := (objects db)(ident := None)\<rparr>))"

subsection \<open>Media streams, the audio graph and the encoder\<close>

datatype TrackKind = AudioTrack | VideoTrack

text \<open>
  A track is known by its identity; a stream is the list of its tracks. Two handles on the
  same stream (a local constant of \<open>startRecording\<close> and \<^verbatim>\<open>streamRef.current\<close>) share
  the tracks, so whether a track has been stopped is kept per identity, in the field
  \<open>endedTracks\<close> of the session.
\<close>

record MediaStreamTrack =
  trackId :: nat
  kind :: TrackKind

type_synonym MediaStream = "MediaStreamTrack list"

definition getVideoTracks :: "MediaStream \<Rightarrow> MediaStreamTrack list" where
  "getVideoTracks stream = filter (\<lambda>t. kind t = VideoTrack) stream"

text \<open>
  The nodes of the Web Audio graph that the recorders create: the two stream sources, the
  stream destination whose stream feeds the encoder, the context's destination (the local
  speakers), the gain node used as merger, and the analyser.
\<close>

datatype AudioNode = TabSource | MicSource | StreamDestination | Speakers | Merger | Analyser

text \<open>An audio context is the list of the connections made in it, in order.\<close>

type_synonym AudioContext = "(AudioNode \<times> AudioNode) list"

text \<open>The stream given to the encoder: a captured stream, or the stream destination's.\<close>

datatype FinalStream = Direct MediaStream | Mixed

datatype RecordingState = Inactive | Capturing | Paused

record MediaRecorder =
  recState :: RecordingState
  recInput :: FinalStream

datatype MediaConstraints = TabCapture string | Microphone string

text \<open>The calls a session makes on its collaborators, logged in order.\<close>

datatype Effect =
    GetMediaStreamId int
  | GetUserMedia MediaConstraints
  | EncoderStop
  | ContextClose
  | SaveRecording Blob int

text \<open>
  What the platform answers during one start: a rejected promise is \<^term>\<open>Inl\<close> of the
  error's message. \<open>getByteFrequencyData\<close> is the snapshot the analyser delivers when it
  is set up, \<open>dateNow\<close> the clock when the encoder starts.
\<close>

record Platform =
  getMediaStreamId :: "int \<Rightarrow> string + string"
  getUserMedia :: "MediaConstraints \<Rightarrow> string + MediaStream"
  getByteFrequencyData :: "8 word list"
  dateNow :: int

subsection \<open>The session\<close>

datatype Status = starting | recording | stopped

text \<open>The two recorder components: without and with the level visualisation.\<close>

datatype Variant = Basic | Visualizing

definition NUM_BARS :: nat where
  "NUM_BARS = 5"

text \<open>A level is a JavaScript number: a rational, or NaN (\<^term>\<open>None\<close>).\<close>

type_synonym Level = "rat option"

text \<open>
  The state (\<open>status\<close>, \<open>duration\<close>, \<open>error\<close>, \<open>audioLevels\<close>) and the refs of
  the component, followed by what it shares with its environment: the tracks stopped so
  far, the pending \<^verbatim>\<open>setTimeout\<close> callbacks of \<open>stopRecording\<close> (each with the
  \<open>duration\<close> its closure captured), the record store, and the log of calls.
  \<open>micStream\<close> is \<^verbatim>\<open>(streamRef as any).micStream\<close>; \<open>analyserRef\<close> and
  \<open>animationRef\<close> say whether the ref is non-null.
\<close>

record Session =
  status :: Status
  duration :: int
  error :: "string option"
  audioLevels :: "Level list"
  mediaRecorderRef :: "MediaRecorder option"
  chunksRef :: "Blob list"
  streamRef :: "MediaStream option"
  micStream :: "MediaStream option"
  audioContextRef :: "AudioContext option"
  analyserRef :: bool
  animationRef :: bool
  startTimeRef :: int
  endedTracks :: "nat set"
  timers :: "int list"
  database :: Database
  effects :: "Effect list"

definition initialSession :: "Database \<Rightarrow> Session" where
  "initialSession db =
     \<lparr>status = starting, duration = 0, error = None,
      audioLevels = replicate NUM_BARS (Some 0),
      mediaRecorderRef = None, chunksRef = [], streamRef = None, micStream = None,
      audioContextRef = None, analyserRef = False, animationRef = False, startTimeRef = 0,
      endedTracks = {}, timers = [], database = db, effects = []\<rparr>"

text \<open>\<^verbatim>\<open>tracks.forEach(t => t.stop())\<close>\<close>

definition stopTracks :: "MediaStreamTrack list \<Rightarrow> Session \<Rightarrow> Session" where
  "stopTracks tracks s = s\<lparr>endedTracks := endedTracks s \<union> set (map trackId tracks)\<rparr>"

definition isLive :: "Session \<Rightarrow> MediaStreamTrack \<Rightarrow> bool" where
  "isLive s t = (trackId t \<notin> endedTracks s)"

definition logEffect :: "Effect \<Rightarrow> Session \<Rightarrow> Session" where
  "logEffect e s = s\<lparr>effects := effects s @ [e]\<rparr>"

subsection \<open>Level analysis\<close>

text \<open>
  \<^verbatim>\<open>
  const levels: number[] = []
  const step = Math.floor(dataArray.length / NUM_BARS)
  for (let i = 0; i < NUM_BARS; i++) {
    const start = i * step
    const end = start + step
    let sum = 0
    for (let j = start; j < end; j++) { sum += dataArray[j] }
    const avg = sum / step
    levels.push(Math.min(1, avg / 180))
  }
  \<close>
  \<open>barLevel\<close> is one round of the outer loop. With \<open>step = 0\<close> the inner loop does not
  run and \<open>avg\<close> is \<open>0 / 0\<close>, NaN, which \<^verbatim>\<open>Math.min\<close> passes on. The quotients are
  exact here; a double rounds them monotonically and represents 0 and 1 exactly.
\<close>

definition barLevel :: "8 word list \<Rightarrow> nat \<Rightarrow> Level" where
  "barLevel dataArray i =
     (let step = length dataArray div NUM_BARS;
          start = i * step;
          end = start + step;
          sum = sum_list (map (\<lambda>j. unat (dataArray ! j)) [start..<end])
      in if step = 0 then None
         else Some (min 1 (of_nat sum / of_nat step / 180)))"

definition computeLevels :: "8 word list \<Rightarrow> Level list" where
  "computeLevels dataArray = map (barLevel dataArray) [0..<NUM_BARS]"

text \<open>
  \<^verbatim>\<open>
  const updateAudioLevels = () => {
    if (!analyserRef.current) return
    ... analyser.getByteFrequencyData(dataArray) ...
    setAudioLevels(levels)
    animationRef.current = requestAnimationFrame(updateAudioLevels)
  }
  \<close>
\<close>

definition updateAudioLevels :: "8 word list \<Rightarrow> Session \<Rightarrow> Session" where
  "updateAudioLevels dataArray s =
     (if \<not> analyserRef s then s
      else s\<lparr>audioLevels := computeLevels dataArray, animationRef := True\<rparr>)"

text \<open>
  \<^verbatim>\<open>
  const setupAnalyser = (audioContext: AudioContext, source: AudioNode) => {
    const analyser = audioContext.createAnalyser()
    analyser.fftSize = 256
    analyser.smoothingTimeConstant = 0.7
    source.connect(analyser)
    analyserRef.current = analyser
    updateAudioLevels()
  }
  \<close>
  The context is still a local of \<open>startRecording\<close> here, so it is passed and returned
  beside the session. \<open>frequencyBinCount\<close> is half of \<open>fftSize\<close>.
\<close>

definition fftSize :: nat where
  "fftSize = 256"

definition frequencyBinCount :: nat where
  "frequencyBinCount = fftSize div 2"

definition setupAnalyser ::
  "8 word list \<Rightarrow> AudioNode \<Rightarrow> AudioContext \<times> Session \<Rightarrow> AudioContext \<times> Session"
where
  "setupAnalyser dataArray source cs =
     (fst cs @ [(source, Analyser)],
      updateAudioLevels dataArray ((snd cs)\<lparr>analyserRef := True\<rparr>))"

subsection \<open>startRecording\<close>

text \<open>
  The graph of the mixing branch (\<^verbatim>\<open>params.mode === 'both' && params.deviceId\<close>).
  Plain recorder:
  \<^verbatim>\<open>
  tabSource.connect(destination)
  tabSource.connect(audioContext.destination)
  micSource.connect(destination)
  \<close>
  Visualising recorder:
  \<^verbatim>\<open>
  tabSource.connect(merger)
  micSource.connect(merger)
  merger.connect(destination)
  tabSource.connect(audioContext.destination)
  setupAnalyser(audioContext, merger)
  \<close>
\<close>

definition mixGraph :: "Variant \<Rightarrow> Platform \<Rightarrow> Session \<Rightarrow> AudioContext \<times> Session" where
  "mixGraph v pf s =
     (case v of
        Basic \<Rightarrow>
          ([(TabSource, StreamDestination), (TabSource, Speakers),
            (MicSource, StreamDestination)], s)
      | Visualizing \<Rightarrow>
          setupAnalyser (getByteFrequencyData pf) Merger
            ([(TabSource, Merger), (MicSource, Merger), (Merger, StreamDestination),
              (TabSource, Speakers)], s))"

text \<open>
  The graph of the tab-only branch: \<^verbatim>\<open>source.connect(audioContext.destination)\<close>, and
  \<^verbatim>\<open>setupAnalyser(audioContext, source)\<close> in the visualising recorder.
\<close>

definition tabGraph :: "Variant \<Rightarrow> Platform \<Rightarrow> Session \<Rightarrow> AudioContext \<times> Session" where
  "tabGraph v pf s =
     (case v of
        Basic \<Rightarrow> ([(TabSource, Speakers)], s)
      | Visualizing \<Rightarrow>
          setupAnalyser (getByteFrequencyData pf) TabSource ([(TabSource, Speakers)], s))"

text \<open>
  The body of the \<^verbatim>\<open>try\<close> block of \<open>startRecording\<close> up to the choice of the final
  stream. A rejected \<^verbatim>\<open>await\<close> leaves the block with the message and with the session
  as it is at that point. Creating an audio context and the encoder is taken to succeed.
  The plain recorder creates no audio context in the microphone-only branch; the
  visualising one creates it for the analyser.
\<close>

definition tryStart ::
  "Variant \<Rightarrow> Platform \<Rightarrow> RecorderParams \<Rightarrow> Session
     \<Rightarrow> (string \<times> Session) + (FinalStream \<times> Session)"
where
  "tryStart v pf params s =
     (if mode params = ''tab'' \<or> mode params = ''both'' then
        (let s1 = logEffect (GetMediaStreamId (tabId params)) s in
         case getMediaStreamId pf (tabId params) of
           Inl msg \<Rightarrow> Inl (msg, s1)
         | Inr streamId \<Rightarrow>
             (let s2 = logEffect (GetUserMedia (TabCapture streamId)) s1 in
              case getUserMedia pf (TabCapture streamId) of
                Inl msg \<Rightarrow> Inl (msg, s2)
              | Inr tabStream \<Rightarrow>
                  (let s3 = stopTracks (getVideoTracks tabStream) s2 in
                   if mode params = ''both'' \<and> deviceId params \<noteq> [] then
                     (let s4 = logEffect (GetUserMedia (Microphone (deviceId params))) s3 in
                      case getUserMedia pf (Microphone (deviceId params)) of
                        Inl msg \<Rightarrow> Inl (msg, s4)
                      | Inr micStr \<Rightarrow>
                          (let cs = mixGraph v pf s4
                           in Inr (Mixed,
                                (snd cs)\<lparr>audioContextRef := Some (fst cs),
                                         streamRef := Some tabStream,
                                         micStream := Some micStr\<rparr>)))
                   else
                     (let cs = tabGraph v pf s3
                      in Inr (Direct tabStream,
                           (snd cs)\<lparr>audioContextRef := Some (fst cs),
                                    streamRef := Some tabStream\<rparr>)))))
      else
        (let s1 = logEffect (GetUserMedia (Microphone (deviceId params))) s in
         case getUserMedia pf (Microphone (deviceId params)) of
           Inl msg \<Rightarrow> Inl (msg, s1)
         | Inr finalStream \<Rightarrow>
             (case v of
                Basic \<Rightarrow> Inr (Direct finalStream, s1\<lparr>streamRef := Some finalStream\<rparr>)
              | Visualizing \<Rightarrow>
                  (let cs = setupAnalyser (getByteFrequencyData pf) MicSource ([], s1)
                   in Inr (Direct finalStream,
                        (snd cs)\<lparr>audioContextRef := Some (fst cs),
                                 streamRef := Some finalStream\<rparr>)))))"

text \<open>
  \<^verbatim>\<open>
      chunksRef.current = []
      const mediaRecorder = new MediaRecorder(finalStream, ...)
      mediaRecorderRef.current = mediaRecorder
      mediaRecorder.start(1000)
      startTimeRef.current = Date.now()
      setStatus('recording')
    } catch (err) {
      setError((err as Error).message)
      setStatus('stopped')
    }
  \<close>
\<close>

definition startRecording :: "Variant \<Rightarrow> Platform \<Rightarrow> RecorderParams \<Rightarrow> Session \<Rightarrow> Session" where
  "startRecording v pf params s =
     (case tryStart v pf params s of
        Inl (msg, s') \<Rightarrow> s'\<lparr>error := Some msg, status := stopped\<rparr>
      | Inr (finalStream, s') \<Rightarrow>
          s'\<lparr>chunksRef := [],
             mediaRecorderRef := Some \<lparr>recState = Capturing, recInput = finalStream\<rparr>,
             startTimeRef := dateNow pf,
             status := recording\<rparr>)"

text \<open>
  The mount effect:
  \<^verbatim>\<open>
  const params = getParams()
  if (!params) { setError('Invalid parameters'); return }
  startRecording(params)
  \<close>
\<close>

definition mount :: "Variant \<Rightarrow> Platform \<Rightarrow> URLSearchParams \<Rightarrow> Session \<Rightarrow> Session" where
  "mount v pf query s =
     (case getParams query of
        None \<Rightarrow> s\<lparr>error := Some ''Invalid parameters''\<rparr>
      | Some params \<Rightarrow> startRecording v pf params s)"

subsection \<open>Chunks, stopRecording and the deferred save\<close>

text \<open>
  \<^verbatim>\<open>mediaRecorder.ondataavailable = (e) => { if (e.data.size > 0) chunksRef.current.push(e.data) }\<close>
\<close>

definition ondataavailable :: "Blob \<Rightarrow> Session \<Rightarrow> Session" where
  "ondataavailable dat s = (if length dat > 0 then s\<lparr>chunksRef := chunksRef s @ [dat]\<rparr> else s)"

text \<open>
  \<^verbatim>\<open>
  const stopRecording = async () => {
    // visualising recorder only:
    if (animationRef.current) { cancelAnimationFrame(animationRef.current); animationRef.current = null }
    analyserRef.current = null
    setAudioLevels(new Array(NUM_BARS).fill(0))
    // both recorders:
    const mediaRecorder = mediaRecorderRef.current
    if (mediaRecorder && mediaRecorder.state !== 'inactive') { mediaRecorder.stop() }
    if (streamRef.current) {
      streamRef.current.getTracks().forEach(t => t.stop())
      if ((streamRef as any).micStream) {
        (streamRef as any).micStream.getTracks().forEach((t) => t.stop())
      }
    }
    if (audioContextRef.current) { audioContextRef.current.close(); audioContextRef.current = null }
    setTimeout(async () => { ... }, 100)
  }
  \<close>
  The function has no \<^verbatim>\<open>await\<close>: one call runs to its end, and leaves its callback among
  the pending timers, with the \<open>duration\<close> that the closure holds.
\<close>

definition stopRecording :: "Variant \<Rightarrow> Session \<Rightarrow> Session" where
  "stopRecording v s0 =
     (let s1 = (case v of
                  Basic \<Rightarrow> s0
                | Visualizing \<Rightarrow>
                    s0\<lparr>animationRef := False, analyserRef := False,
                       audioLevels := replicate NUM_BARS (Some 0)\<rparr>);
          s2 = (case mediaRecorderRef s1 of
                  None \<Rightarrow> s1
                | Some mediaRecorder \<Rightarrow>
                    if recState mediaRecorder \<noteq> Inactive
                    then logEffect EncoderStop
                           (s1\<lparr>mediaRecorderRef := Some (mediaRecorder\<lparr>recState := Inactive\<rparr>)\<rparr>)
                    else s1);
          s3 = (case streamRef s2 of
                  None \<Rightarrow> s2
                | Some stream \<Rightarrow>
                    (let s' = stopTracks stream s2
                     in case micStream s' of
                          None \<Rightarrow> s'
                        | Some mic \<Rightarrow> stopTracks mic s'));
          s4 = (case audioContextRef s3 of
                  None \<Rightarrow> s3
                | Some ctx \<Rightarrow> logEffect ContextClose (s3\<lparr>audioContextRef := None\<rparr>))
      in s4\<lparr>timers := timers s4 @ [duration s4]\<rparr>)"

text \<open>
  The callback of the timer, run with the captured duration \<open>d\<close>:
  \<^verbatim>\<open>
  const blob = new Blob(chunksRef.current, { type: 'audio/webm' })
  if (blob.size > 0) {
    try { await saveRecording(blob, duration); setStatus('stopped') }
    catch (err) { setError('Failed to save recording'); setStatus('stopped') }
  } else { setStatus('stopped') }
  \<close>
\<close>

definition saveCallback :: "SaveClock \<Rightarrow> int \<Rightarrow> Session \<Rightarrow> Session" where
  "saveCallback clk d s =
     (let blob = concat (chunksRef s) in
      if length blob > 0 then
        (let s1 = logEffect (SaveRecording blob d) s in
         case saveRecording clk blob d None (database s1) of
           Inr (r, db) \<Rightarrow> s1\<lparr>database := db, status := stopped\<rparr>
         | Inl e \<Rightarrow> s1\<lparr>error := Some ''Failed to save recording'', status := stopped\<rparr>)
      else s\<lparr>status := stopped\<rparr>)"

subsection \<open>Events of a session\<close>

text \<open>
  What can happen to a mounted recorder: a click on the stop button (rendered only while
  the status is \<open>recording\<close>), a chunk from the encoder, a tick of the duration interval
  (installed only while recording), the oldest pending timer firing, an animation frame,
  and the record store starting or ceasing to fail.
\<close>

datatype Event =
    ClickStop
  | DataAvailable Blob
  | Tick int
  | TimerFires SaveClock
  | AnimationFrame "8 word list"
  | StoreBroken bool

fun step :: "Variant \<Rightarrow> Session \<Rightarrow> Event \<Rightarrow> Session" where
  "step v s ClickStop = (if status s = recording then stopRecording v s else s)"
| "step v s (DataAvailable dat) =
     (case mediaRecorderRef s of None \<Rightarrow> s | Some mediaRecorder \<Rightarrow> ondataavailable dat s)"
| "step v s (Tick now) =
     (if status s = recording then s\<lparr>duration := elapsedSeconds now (startTimeRef s)\<rparr> else s)"
| "step v s (TimerFires clk) =
     (case timers s of [] \<Rightarrow> s | d # rest \<Rightarrow> saveCallback clk d (s\<lparr>timers := rest\<rparr>))"
| "step v s (AnimationFrame dataArray) =
     (if animationRef s then updateAudioLevels dataArray s else s)"
| "step v s (StoreBroken b) = s\<lparr>database := (database s)\<lparr>broken := b\<rparr>\<rparr>"

definition run :: "Variant \<Rightarrow> Session \<Rightarrow> Event list \<Rightarrow> Session" where
  "run v s events = foldl (step v) s events"

text \<open>How often the log holds a call of the record store's create operation.\<close>

definition isSave :: "Effect \<Rightarrow> bool" where
  "isSave e = (case e of SaveRecording b d \<Rightarrow> True | _ \<Rightarrow> False)"

definition saveCalls :: "Session \<Rightarrow> nat" where
  "saveCalls s = length (filter isSave (effects s))"

subsection \<open>The transcription handler (recordings/Recordings.tsx)\<close>

text \<open>
  The answer to \<^verbatim>\<open>fetch(.../transcribe?format=markdown)\<close>: the promise rejects (transport
  failure), or a response arrives with its \<open>ok\<close> flag, status text and body.
\<close>

datatype FetchResult = TransportFailure | Response bool string string

datatype Outcome = Resolved | Rejected StorageError

record Page =
  recordings :: "Recording list"
  apiAvailable :: "bool option"
  processingId :: "string option"
  selectedRecording :: "Recording option"
  store :: Database
  alerts :: "string list"

text \<open>
  \<^verbatim>\<open>
  const handleProcess = async (recording: Recording) => {
    if (!apiAvailable) { alert('...'); return }
    setProcessingId(recording.id)
    await updateRecording(recording.id, { transcriptionStatus: 'processing' })
    try {
      ... const response = await fetch(...)
      if (!response.ok) { throw new Error(`Transcription failed: ${response.statusText}`) }
      const markdown = await response.text()
      await updateRecording(recording.id, { transcription: markdown, transcriptionStatus: 'completed' })
      setRecordings(prev => prev.map(r => r.id === recording.id
        ? { ...r, transcription: markdown, transcriptionStatus: 'completed' } : r))
      if (selectedRecording?.id === recording.id) {
        setSelectedRecording({ ...recording, transcription: markdown, transcriptionStatus: 'completed' })
      }
    } catch (err) {
      await updateRecording(recording.id, { transcriptionStatus: 'error' })
      setRecordings(prev => prev.map(r =>
        r.id === recording.id ? { ...r, transcriptionStatus: 'error' } : r))
    } finally { setProcessingId(null) }
  }
  \<close>
  The first update is outside the \<^verbatim>\<open>try\<close>: when it rejects, the handler rejects and
  \<open>processingId\<close> stays set. \<open>attempt\<close> is the \<^verbatim>\<open>try\<close> block: \<^term>\<open>None\<close> when it throws.
\<close>

definition handleProcess :: "FetchResult \<Rightarrow> Recording \<Rightarrow> Page \<Rightarrow> Outcome \<times> Page" where
  "handleProcess response rcd pg =
     (if apiAvailable pg \<noteq> Some True
      then (Resolved,
            pg\<lparr>alerts := alerts pg
               @ [''Transcription server is not available. Please start Echoes Server.'']\<rparr>)
      else
        let pg1 = pg\<lparr>processingId := Some (recId rcd)\<rparr> in
        case updateRecording (store pg1) (recId rcd)
               (noUpdates\<lparr>setTranscriptionStatus := Some Processing\<rparr>) of
          Inl e \<Rightarrow> (Rejected e, pg1)
        | Inr db1 \<Rightarrow>
            (let pg2 = pg1\<lparr>store := db1\<rparr>;
                 attempt =
                   (case response of
                      TransportFailure \<Rightarrow> None
                    | Response ok statusText markdown \<Rightarrow>
                        if \<not> ok then None
                        else
                          (case updateRecording (store pg2) (recId rcd)
                                  (noUpdates\<lparr>setTranscription := Some markdown,
                                             setTranscriptionStatus := Some Completed\<rparr>) of
                             Inl e \<Rightarrow> None
                           | Inr db2 \<Rightarrow>
                               Some (pg2\<lparr>store := db2,
                                  recordings :=
                                    map (\<lambda>r. if recId r = recId rcd
                                              then r\<lparr>transcription := Some markdown,
                                                     transcriptionStatus := Some Completed\<rparr>
                                              else r) (recordings pg2),
                                  selectedRecording :=
                                    (if map_option recId (selectedRecording pg2) = Some (recId rcd)
                                     then Some (rcd\<lparr>transcription := Some markdown,
                                                     transcriptionStatus := Some Completed\<rparr>)
                                     else selectedRecording pg2)\<rparr>)))
             in case attempt of
                  Some pg3 \<Rightarrow> (Resolved, pg3\<lparr>processingId := None\<rparr>)
                | None \<Rightarrow>
                    (case updateRecording (store pg2) (recId rcd)
                            (noUpdates\<lparr>setTranscriptionStatus := Some Error\<rparr>) of
                       Inl e \<Rightarrow> (Rejected e, pg2\<lparr>processingId := None\<rparr>)
                     | Inr db3 \<Rightarrow>
                         (Resolved,
                          pg2\<lparr>store := db3,
                              recordings :=
                                map (\<lambda>r. if recId r = recId rcd
                                          then r\<lparr>transcriptionStatus := Some Error\<rparr>
                                          else r) (recordings pg2),
                              processingId := None\<rparr>))))"

text \<open>A transcription attempt fails: transport failure, or a response that is not \<open>ok\<close>.\<close>

definition transcriptionFails :: "FetchResult \<Rightarrow> bool" where
  "transcriptionFails response =
     (case response of TransportFailure \<Rightarrow> True | Response ok statusText body \<Rightarrow> \<not> ok)"

subsection \<open>Concrete inputs\<close>

text \<open>
  A tab with one audio and one video track, a microphone with one audio track, a platform
  that grants every request, one that refuses the microphone, an empty record store, and
  a clock reading for each of two saves.
\<close>

definition tabTracks :: MediaStream where
  "tabTracks = [\<lparr>trackId = 1, kind = AudioTrack\<rparr>, \<lparr>trackId = 2, kind = VideoTrack\<rparr>]"

definition micTracks :: MediaStream where
  "micTracks = [\<lparr>trackId = 3, kind = AudioTrack\<rparr>]"

definition grantingPlatform :: Platform where
  "grantingPlatform =
     \<lparr>getMediaStreamId = (\<lambda>t. Inr ''stream-1''),
      getUserMedia = (\<lambda>c. case c of TabCapture i \<Rightarrow> Inr tabTracks | Microphone d \<Rightarrow> Inr micTracks),
      getByteFrequencyData = replicate 128 0,
      dateNow = 1000\<rparr>"

definition micRefusingPlatform :: Platform where
  "micRefusingPlatform =
     \<lparr>getMediaStreamId = (\<lambda>t. Inr ''stream-1''),
      getUserMedia = (\<lambda>c. case c of TabCapture i \<Rightarrow> Inr tabTracks
                                   | Microphone d \<Rightarrow> Inl ''Requested device not found''),
      getByteFrequencyData = replicate 128 0,
      dateNow = 1000\<rparr>"

definition emptyDatabase :: Database where
  "emptyDatabase = \<lparr>objects = Map.empty, broken = False\<rparr>"

definition firstClock :: SaveClock where
  "firstClock = \<lparr>idTime = 1100, random36 = ''0.4fzyo82mvyr'',
     isoTime = ''2025-12-04T18:09:06.216Z'', createdTime = 1100\<rparr>"

definition secondClock :: SaveClock where
  "secondClock = \<lparr>idTime = 1101, random36 = ''0.9k2j7qx1abc'',
     isoTime = ''2025-12-04T18:09:06.217Z'', createdTime = 1101\<rparr>"

definition storedExample :: Recording where
  "storedExample =
     \<lparr>recId = ''rec-1'', recName = ''Standup'', recBlob = [1, 2, 3], recDuration = 65,
      recCreatedAt = 1000, recSize = 3, transcription = Some ''old text'',
      transcriptionStatus = Some Completed\<rparr>"

definition examplePage :: Page where
  "examplePage =
     \<lparr>recordings = [storedExample], apiAvailable = Some True, processingId = None,
      selectedRecording = None,
      store = \<lparr>objects = [''rec-1'' \<mapsto> storedExample], broken = False\<rparr>,
      alerts = []\<rparr>"

text \<open>
  A tab-only session that has received one chunk of four bytes, and the same session after
  two calls of \<open>stopRecording\<close> in succession and the two timers they leave.
\<close>

definition recordingSession :: Session where
  "recordingSession =
     ondataavailable [26, 69, 223, 163]
       (mount Basic grantingPlatform [(''mode'', ''tab''), (''tabId'', ''5'')]
          (initialSession emptyDatabase))"

definition stoppedTwice :: Session where
  "stoppedTwice =
     run Basic (stopRecording Basic (stopRecording Basic recordingSession))
       [TimerFires firstClock, TimerFires secondClock]"

text \<open>
  For the traces after a stop: an event is quiet when it is neither a click on the stop
  button nor a timer firing; \<open>deliveredChunks\<close> are the non-empty chunks that the
  \<open>DataAvailable\<close> events of a trace carry, in order; \<open>createCall\<close> is what one
  save callback logs for the chunks it finds and the duration it holds.
\<close>

definition isQuiet :: "Event \<Rightarrow> bool" where
  "isQuiet e = (case e of ClickStop \<Rightarrow> False | TimerFires clk \<Rightarrow> False | _ \<Rightarrow> True)"

fun deliveredChunks :: "Event list \<Rightarrow> Blob list" where
  "deliveredChunks [] = []"
| "deliveredChunks (DataAvailable dat # es) =
     (if length dat > 0 then dat # deliveredChunks es else deliveredChunks es)"
| "deliveredChunks (e # es) = deliveredChunks es"

definition createCall :: "Blob list \<Rightarrow> int \<Rightarrow> Effect list" where
  "createCall chunks d = (if concat chunks = [] then [] else [SaveRecording (concat chunks) d])"

section \<open>Properties\<close>

subsection \<open>Elapsed time and its display\<close>

lemma elapsedSeconds_bounds:
  "1000 * elapsedSeconds now startedAt \<le> now - startedAt \<and>
   now - startedAt < 1000 * elapsedSeconds now startedAt + 1000"
proof -
  define a where "a = now - startedAt"
  have whole: "1000 * (a div 1000) + a mod 1000 = a"
    by (rule mult_div_mod_eq)
  have low: "0 \<le> a mod 1000"
    by (rule pos_mod_sign) simp
  have high: "a mod 1000 < 1000"
    by (rule pos_mod_bound) simp
  from whole low high show ?thesis
    unfolding elapsedSeconds_def a_def [symmetric] by linarith
qed

lemma formatDuration_65: "formatDuration 65 = ''01:05''"
  by code_simp

text \<open>
  Claim C5, as stated: a session held open 65 seconds displays \<open>1:05\<close>. The formatter pads
  the minutes to two digits, so the string \<open>1:05\<close> is not what it returns for 65 seconds.
\<close>

theorem formatDuration_65_counterexample: "formatDuration 65 \<noteq> ''1:05''"
  by code_simp

text \<open>
  Claim C5, amended: for a session held open 65 seconds (the clock reads between 65000 and
  65999 milliseconds after \<open>startedAt\<close>), the duration recomputed from \<open>now - startedAt\<close>
  is 65, within one second below the wall-clock delta, and is displayed as \<open>01:05\<close>.
\<close>

theorem elapsed_65_displayed_01_05:
  assumes "65000 \<le> now - startedAt" and "now - startedAt < 66000"
  shows "elapsedSeconds now startedAt = 65
     \<and> 1000 * elapsedSeconds now startedAt \<le> now - startedAt
     \<and> now - startedAt < 1000 * elapsedSeconds now startedAt + 1000
     \<and> formatDuration (elapsedSeconds now startedAt) = ''01:05''"
proof -
  have secs: "elapsedSeconds now startedAt = 65"
    using assms elapsedSeconds_bounds [of now startedAt] by linarith
  show ?thesis
    using secs assms formatDuration_65 by simp
qed

theorem elapsed_65_displayed_01_05_witness:
  "elapsedSeconds 66400 1000 = 65 \<and> formatDuration (elapsedSeconds 66400 1000) = ''01:05''"
proof -
  have held: "(65000::int) \<le> 66400 - 1000" "(66400::int) - 1000 < 66000"
    by simp_all
  from elapsed_65_displayed_01_05 [OF held] show ?thesis
    by blast
qed

subsection \<open>Which parameter sets start a session\<close>








subsection \<open>The record store and the transcription handler\<close>

text \<open>
  Claim C10: \<open>getRecording\<close> never fails for an absent id: on a working store it resolves
  to the stored record for a present id and to null for an absent one, where
  \<open>updateRecording\<close> rejects with \<open>Recording not found\<close>.
\<close>

theorem getRecording_absent_is_null:
  "getRecording db ident \<noteq> Inl NotFound
   \<and> (\<not> broken db \<longrightarrow> getRecording db ident = Inr (objects db ident))
   \<and> (\<not> broken db \<and> objects db ident = None \<longrightarrow>
        getRecording db ident = Inr None \<and> updateRecording db ident updates = Inl NotFound)"
  by (simp add: getRecording_def updateRecording_def)

theorem getRecording_absent_is_null_witness:
  "getRecording emptyDatabase ''rec-9'' = Inr None
   \<and> updateRecording emptyDatabase ''rec-9'' noUpdates = Inl NotFound
   \<and> getRecording (store examplePage) ''rec-1'' = Inr (Some storedExample)"
  using getRecording_absent_is_null [of emptyDatabase "''rec-9''" noUpdates]
        getRecording_absent_is_null [of "store examplePage" "''rec-1''" noUpdates]
  by (simp add: emptyDatabase_def examplePage_def)

lemma spread_status:
  "spread r (noUpdates\<lparr>setTranscriptionStatus := Some st\<rparr>) = r\<lparr>transcriptionStatus := Some st\<rparr>"
  by (cases r) (simp add: spread_def noUpdates_def)

lemma updateRecording_status:
  assumes "\<not> broken db" and "objects db k = Some r" and "recId r = k"
  shows "updateRecording db k (noUpdates\<lparr>setTranscriptionStatus := Some st\<rparr>)
           = Inr (db\<lparr>objects := (objects db)(k \<mapsto> r\<lparr>transcriptionStatus := Some st\<rparr>)\<rparr>)"
  using assms by (simp add: updateRecording_def getRecording_def spread_status)

text \<open>
  Claim C9: when the transcription of a stored record fails (the request rejects or the
  response is not \<open>ok\<close>) the handler resolves, the stored record differs from the one
  before the attempt in \<open>transcriptionStatus\<close> only, which is \<open>error\<close> (so the stored
  transcription text is the old one), every other record of the store is as before, and
  the list on the page changes in the same way. The store is taken to work and to hold the
  record under its own id.
\<close>

theorem failed_transcription_marks_error_only:
  assumes "apiAvailable pg = Some True" and "\<not> broken (store pg)"
    and "objects (store pg) (recId rcd) = Some stored" and "recId stored = recId rcd"
    and "transcriptionFails response"
  shows "fst (handleProcess response rcd pg) = Resolved
     \<and> objects (store (snd (handleProcess response rcd pg)))
          = (objects (store pg))(recId rcd \<mapsto> stored\<lparr>transcriptionStatus := Some Error\<rparr>)
     \<and> recordings (snd (handleProcess response rcd pg))
          = map (\<lambda>r. if recId r = recId rcd then r\<lparr>transcriptionStatus := Some Error\<rparr> else r)
              (recordings pg)"
proof -
  let ?k = "recId rcd"
  let ?db1 = "(store pg)\<lparr>objects :=
     (objects (store pg))(?k \<mapsto> stored\<lparr>transcriptionStatus := Some Processing\<rparr>)\<rparr>"
  have first: "updateRecording (store pg) ?k (noUpdates\<lparr>setTranscriptionStatus := Some Processing\<rparr>)
      = Inr ?db1"
    using assms by (intro updateRecording_status) auto
  have last: "updateRecording ?db1 ?k (noUpdates\<lparr>setTranscriptionStatus := Some Error\<rparr>)
      = Inr (?db1\<lparr>objects := (objects ?db1)
           (?k \<mapsto> (stored\<lparr>transcriptionStatus := Some Processing\<rparr>)
                    \<lparr>transcriptionStatus := Some Error\<rparr>)\<rparr>)"
    using assms by (intro updateRecording_status) auto
  have thrown: "(case response of TransportFailure \<Rightarrow> None
       | Response ok st md \<Rightarrow> if \<not> ok then None else f md) = None"
    for f :: "string \<Rightarrow> Page option"
    using assms(5) by (cases response) (auto simp: transcriptionFails_def)
  show ?thesis
    using assms(1) by (simp add: handleProcess_def Let_def first last thrown)
qed

theorem failed_transcription_marks_error_only_witness:
  "fst (handleProcess TransportFailure storedExample examplePage) = Resolved
   \<and> objects (store (snd (handleProcess TransportFailure storedExample examplePage))) ''rec-1''
       = Some (storedExample\<lparr>transcriptionStatus := Some Error\<rparr>)
   \<and> transcription (storedExample\<lparr>transcriptionStatus := Some Error\<rparr>) = Some ''old text''"
  using failed_transcription_marks_error_only
          [of examplePage storedExample storedExample TransportFailure]
  by (simp add: examplePage_def storedExample_def transcriptionFails_def)

subsection \<open>The level vector\<close>

lemma band_index_in_range:
  assumes "i < NUM_BARS" and "j < i * (length d div NUM_BARS) + length d div NUM_BARS"
  shows "j < length d"
proof -
  let ?step = "length d div NUM_BARS"
  have "i * ?step + ?step = Suc i * ?step"
    by simp
  also have "\<dots> \<le> NUM_BARS * ?step"
    using assms(1) by (intro mult_le_mono1) simp
  also have "\<dots> \<le> length d"
    by (simp add: NUM_BARS_def)
  finally show ?thesis
    using assms(2) by linarith
qed

lemma band_sum_const:
  assumes "i < NUM_BARS" and "\<forall>b\<in>set d. b = c"
  shows "sum_list (map (\<lambda>j. unat (d ! j))
             [i * (length d div NUM_BARS)..<i * (length d div NUM_BARS) + length d div NUM_BARS])
           = (length d div NUM_BARS) * unat c"
proof -
  let ?step = "length d div NUM_BARS"
  have same: "map (\<lambda>j. unat (d ! j)) [i * ?step..<i * ?step + ?step]
      = map (\<lambda>j. unat c) [i * ?step..<i * ?step + ?step]"
  proof (rule map_cong [OF refl])
    fix j
    assume "j \<in> set [i * ?step..<i * ?step + ?step]"
    then have "j < i * ?step + ?step"
      by simp
    then have "j < length d"
      by (rule band_index_in_range [OF assms(1)])
    then have "d ! j \<in> set d"
      by (rule nth_mem)
    with assms(2) have "d ! j = c"
      by (rule bspec)
    then show "unat (d ! j) = unat c"
      by simp
  qed
  show ?thesis
    unfolding same by (simp add: sum_list_triv)
qed

lemma barLevel_range:
  assumes "NUM_BARS \<le> length d"
  shows "\<exists>x. barLevel d i = Some x \<and> 0 \<le> x \<and> x \<le> 1"
proof -
  have "length d div NUM_BARS \<noteq> 0"
    using assms by (simp add: NUM_BARS_def)
  then show ?thesis
    by (simp add: barLevel_def Let_def)
qed

lemma barLevel_const:
  assumes "NUM_BARS \<le> length d" and "i < NUM_BARS" and "\<forall>b\<in>set d. b = c"
  shows "barLevel d i = Some (min 1 (of_nat (unat c) / 180))"
proof -
  have nz: "length d div NUM_BARS \<noteq> 0"
    using assms(1) by (simp add: NUM_BARS_def)
  show ?thesis
    unfolding barLevel_def Let_def band_sum_const [OF assms(2,3)]
    using nz by simp
qed

lemma computeLevels_const:
  assumes "NUM_BARS \<le> length d" and "\<forall>b\<in>set d. b = c"
  shows "computeLevels d = replicate NUM_BARS (Some (min 1 (of_nat (unat c) / 180)))"
proof -
  have "map (barLevel d) [0..<NUM_BARS]
      = map (\<lambda>i. Some (min 1 (of_nat (unat c) / 180))) [0..<NUM_BARS]"
    by (rule map_cong [OF refl]) (simp add: barLevel_const [OF assms(1) _ assms(2)])
  then show ?thesis
    by (simp add: computeLevels_def map_replicate_const)
qed

lemma full_snapshot_length: "NUM_BARS \<le> length (replicate frequencyBinCount (255::8 word))"
  by (simp add: NUM_BARS_def frequencyBinCount_def fftSize_def)

text \<open>
  Claim C6: for every frequency snapshot the analyser can deliver (a byte vector with at
  least one bin per bar; the analyser's has \<open>frequencyBinCount = 128\<close> bins), the level
  vector published by \<open>updateAudioLevels\<close> has length 5 and every entry is a number in
  \<open>[0, 1]\<close>; an all-zero snapshot gives five zeros and an all-255 snapshot five ones.
\<close>

theorem level_vector_fixed_length_and_bounded:
  assumes "NUM_BARS \<le> length dataArray" and "analyserRef s"
  shows "audioLevels (updateAudioLevels dataArray s) = computeLevels dataArray
     \<and> length (computeLevels dataArray) = 5
     \<and> (\<forall>l\<in>set (computeLevels dataArray). \<exists>x. l = Some x \<and> 0 \<le> x \<and> x \<le> 1)
     \<and> ((\<forall>b\<in>set dataArray. b = 0) \<longrightarrow> computeLevels dataArray = replicate 5 (Some 0))
     \<and> ((\<forall>b\<in>set dataArray. b = 255) \<longrightarrow> computeLevels dataArray = replicate 5 (Some 1))"
proof (intro conjI)
  show "audioLevels (updateAudioLevels dataArray s) = computeLevels dataArray"
    using assms(2) by (simp add: updateAudioLevels_def)
  show "length (computeLevels dataArray) = 5"
    by (simp add: computeLevels_def NUM_BARS_def)
  show "\<forall>l\<in>set (computeLevels dataArray). \<exists>x. l = Some x \<and> 0 \<le> x \<and> x \<le> 1"
    using barLevel_range [OF assms(1)] by (auto simp: computeLevels_def)
  show "(\<forall>b\<in>set dataArray. b = 0) \<longrightarrow> computeLevels dataArray = replicate 5 (Some 0)"
    using computeLevels_const [OF assms(1), of 0] by (simp add: NUM_BARS_def)
  show "(\<forall>b\<in>set dataArray. b = 255) \<longrightarrow> computeLevels dataArray = replicate 5 (Some 1)"
    using computeLevels_const [OF assms(1), of 255] by (simp add: NUM_BARS_def)
qed

theorem level_vector_fixed_length_and_bounded_witness:
  "computeLevels (replicate frequencyBinCount 255) = replicate 5 (Some 1)
   \<and> length (replicate frequencyBinCount (255::8 word)) = 128"
proof -
  have analysing: "analyserRef ((initialSession emptyDatabase)\<lparr>analyserRef := True\<rparr>)"
    by simp
  from level_vector_fixed_length_and_bounded [OF full_snapshot_length analysing]
  show ?thesis
    by (simp add: frequencyBinCount_def fftSize_def)
qed

subsection \<open>The audio graph of a start\<close>

lemma tabGraph_session:
  "snd (tabGraph v pf s) = (case v of Basic \<Rightarrow> s
      | Visualizing \<Rightarrow> s\<lparr>analyserRef := True,
           audioLevels := computeLevels (getByteFrequencyData pf), animationRef := True\<rparr>)"
  by (cases v) (simp_all add: tabGraph_def setupAnalyser_def updateAudioLevels_def)

lemma mixGraph_session:
  "snd (mixGraph v pf s) = (case v of Basic \<Rightarrow> s
      | Visualizing \<Rightarrow> s\<lparr>analyserRef := True,
           audioLevels := computeLevels (getByteFrequencyData pf), animationRef := True\<rparr>)"
  by (cases v) (simp_all add: mixGraph_def setupAnalyser_def updateAudioLevels_def)

lemma tabGraph_edges:
  "fst (tabGraph v pf s) = (case v of Basic \<Rightarrow> [(TabSource, Speakers)]
      | Visualizing \<Rightarrow> [(TabSource, Speakers), (TabSource, Analyser)])"
  by (cases v) (simp_all add: tabGraph_def setupAnalyser_def)

lemma mixGraph_edges:
  "fst (mixGraph v pf s) = (case v of
       Basic \<Rightarrow> [(TabSource, StreamDestination), (TabSource, Speakers),
                  (MicSource, StreamDestination)]
     | Visualizing \<Rightarrow> [(TabSource, Merger), (MicSource, Merger), (Merger, StreamDestination),
          (TabSource, Speakers), (Merger, Analyser)])"
  by (cases v) (simp_all add: mixGraph_def setupAnalyser_def)

lemma effects_tabGraph: "effects (snd (tabGraph v pf s)) = effects s"
  by (simp add: tabGraph_session split: Variant.splits)

lemma tryStart_both_without_mic:
  "tryStart v pf \<lparr>mode = ''both'', deviceId = [], tabId = t\<rparr> s
     = tryStart v pf \<lparr>mode = ''tab'', deviceId = d, tabId = t\<rparr> s"
  by (simp add: tryStart_def Let_def split: sum.splits)

lemma getParams_without_deviceId:
  assumes "getParams q = Some p"
    and "getParam q ''deviceId'' = None \<or> getParam q ''deviceId'' = Some []"
  shows "deviceId p = []"
  using assms by (auto simp: getParams_def Let_def orElse_def split: if_splits)

lemma mount_both_missing_deviceId:
  assumes "getParams q = Some p" and "mode p = ''both''"
    and "getParam q ''deviceId'' = None \<or> getParam q ''deviceId'' = Some []"
  shows "mount v pf q s
     = startRecording v pf \<lparr>mode = ''tab'', deviceId = [], tabId = tabId p\<rparr> s"
proof -
  have "deviceId p = []"
    using assms(1,3) by (rule getParams_without_deviceId)
  then have p: "p = \<lparr>mode = ''both'', deviceId = [], tabId = tabId p\<rparr>"
    using assms(2) by (cases p) simp
  have "mount v pf q s = startRecording v pf p s"
    using assms(1) by (simp add: mount_def)
  also have "\<dots> = startRecording v pf \<lparr>mode = ''both'', deviceId = [], tabId = tabId p\<rparr> s"
    using p by simp
  also have "\<dots> = startRecording v pf \<lparr>mode = ''tab'', deviceId = [], tabId = tabId p\<rparr> s"
    by (simp add: startRecording_def tryStart_both_without_mic [of v pf "tabId p" s "[]"])
  finally show ?thesis .
qed

text \<open>
  Claim C7: a parameter set with mode \<open>both\<close> and an empty device id is started exactly
  as the tab-only parameter set with the same tab id, so it fails only where tab-only
  fails; no microphone is requested; when the tab is captured, the session records, the
  tab stream is the encoder's input, no microphone stream is held, and the graph is the
  tab-only one, with the tab source on the speakers. A query with mode \<open>both\<close> whose
  device id is missing or empty is mounted as that tab-only parameter set.
\<close>

theorem both_without_deviceId_is_tab_only:
  "startRecording v pf \<lparr>mode = ''both'', deviceId = [], tabId = t\<rparr> s
     = startRecording v pf \<lparr>mode = ''tab'', deviceId = d, tabId = t\<rparr> s
   \<and> (\<forall>x. GetUserMedia (Microphone x)
            \<in> set (effects (startRecording v pf \<lparr>mode = ''both'', deviceId = [], tabId = t\<rparr> s))
          \<longrightarrow> GetUserMedia (Microphone x) \<in> set (effects s))
   \<and> (\<forall>sid tabStream.
         getMediaStreamId pf t = Inr sid \<and> getUserMedia pf (TabCapture sid) = Inr tabStream
         \<longrightarrow> status (startRecording v pf \<lparr>mode = ''both'', deviceId = [], tabId = t\<rparr> s) = recording
           \<and> error (startRecording v pf \<lparr>mode = ''both'', deviceId = [], tabId = t\<rparr> s) = error s
           \<and> mediaRecorderRef (startRecording v pf \<lparr>mode = ''both'', deviceId = [], tabId = t\<rparr> s)
               = Some \<lparr>recState = Capturing, recInput = Direct tabStream\<rparr>
           \<and> micStream (startRecording v pf \<lparr>mode = ''both'', deviceId = [], tabId = t\<rparr> s)
               = micStream s
           \<and> audioContextRef (startRecording v pf \<lparr>mode = ''both'', deviceId = [], tabId = t\<rparr> s)
               = Some (fst (tabGraph v pf s))
           \<and> (TabSource, Speakers) \<in> set (fst (tabGraph v pf s)))
   \<and> (\<forall>q p. getParams q = Some p \<and> mode p = ''both''
           \<and> (getParam q ''deviceId'' = None \<or> getParam q ''deviceId'' = Some [])
         \<longrightarrow> mount v pf q s
               = startRecording v pf \<lparr>mode = ''tab'', deviceId = [], tabId = tabId p\<rparr> s)"
proof (intro conjI allI impI)
  show "startRecording v pf \<lparr>mode = ''both'', deviceId = [], tabId = t\<rparr> s
     = startRecording v pf \<lparr>mode = ''tab'', deviceId = d, tabId = t\<rparr> s"
    by (simp add: startRecording_def tryStart_both_without_mic [of v pf t s d])
next
  fix x
  assume "GetUserMedia (Microphone x)
            \<in> set (effects (startRecording v pf \<lparr>mode = ''both'', deviceId = [], tabId = t\<rparr> s))"
  then show "GetUserMedia (Microphone x) \<in> set (effects s)"
    by (auto simp: startRecording_def tryStart_def Let_def logEffect_def stopTracks_def
          effects_tabGraph split: sum.splits)
next
  fix sid tabStream
  assume ok: "getMediaStreamId pf t = Inr sid \<and> getUserMedia pf (TabCapture sid) = Inr tabStream"
  let ?s = "startRecording v pf \<lparr>mode = ''both'', deviceId = [], tabId = t\<rparr> s"
  have started: "?s = (snd (tabGraph v pf (stopTracks (getVideoTracks tabStream)
         (logEffect (GetUserMedia (TabCapture sid)) (logEffect (GetMediaStreamId t) s)))))
        \<lparr>audioContextRef := Some (fst (tabGraph v pf (stopTracks (getVideoTracks tabStream)
         (logEffect (GetUserMedia (TabCapture sid)) (logEffect (GetMediaStreamId t) s))))),
         streamRef := Some tabStream, chunksRef := [],
         mediaRecorderRef := Some \<lparr>recState = Capturing, recInput = Direct tabStream\<rparr>,
         startTimeRef := dateNow pf, status := recording\<rparr>"
    using ok by (simp add: startRecording_def tryStart_def Let_def)
  show "status ?s = recording"
    by (simp add: started)
  show "mediaRecorderRef ?s = Some \<lparr>recState = Capturing, recInput = Direct tabStream\<rparr>"
    by (simp add: started)
  show "audioContextRef ?s = Some (fst (tabGraph v pf s))"
    by (simp add: started tabGraph_edges)
  show "error ?s = error s"
    by (simp add: started tabGraph_session stopTracks_def logEffect_def split: Variant.splits)
  show "micStream ?s = micStream s"
    by (simp add: started tabGraph_session stopTracks_def logEffect_def split: Variant.splits)
  show "(TabSource, Speakers) \<in> set (fst (tabGraph v pf s))"
    by (simp add: tabGraph_edges split: Variant.splits)
next
  fix q p
  assume "getParams q = Some p \<and> mode p = ''both''
           \<and> (getParam q ''deviceId'' = None \<or> getParam q ''deviceId'' = Some [])"
  then show "mount v pf q s
      = startRecording v pf \<lparr>mode = ''tab'', deviceId = [], tabId = tabId p\<rparr> s"
    using mount_both_missing_deviceId [of q p v pf s] by blast
qed

lemma granted_stream_id: "getMediaStreamId grantingPlatform 5 = Inr ''stream-1''"
  by (simp add: grantingPlatform_def)

lemma granted_tab: "getUserMedia grantingPlatform (TabCapture ''stream-1'') = Inr tabTracks"
  by (simp add: grantingPlatform_def)

theorem both_without_deviceId_is_tab_only_witness:
  "status (startRecording Basic grantingPlatform \<lparr>mode = ''both'', deviceId = [], tabId = 5\<rparr>
             (initialSession emptyDatabase)) = recording
   \<and> mediaRecorderRef
        (startRecording Basic grantingPlatform \<lparr>mode = ''both'', deviceId = [], tabId = 5\<rparr>
           (initialSession emptyDatabase))
       = Some \<lparr>recState = Capturing, recInput = Direct tabTracks\<rparr>"
  using both_without_deviceId_is_tab_only
          [of Basic grantingPlatform 5 "initialSession emptyDatabase" "[]"]
        granted_stream_id granted_tab
  by blast

lemma closed_under_edges:
  assumes "(a, b) \<in> r\<^sup>+" and "a \<in> A" and "\<And>x y. (x, y) \<in> r \<Longrightarrow> x \<in> A \<Longrightarrow> y \<in> A"
  shows "b \<in> A"
  using assms by (induction rule: trancl_induct) auto

lemma mic_never_reaches_speakers:
  "(MicSource, Speakers) \<notin> (set (fst (mixGraph v pf s)))\<^sup>+"
proof
  assume path: "(MicSource, Speakers) \<in> (set (fst (mixGraph v pf s)))\<^sup>+"
  have "Speakers \<in> {MicSource, Merger, StreamDestination, Analyser}"
  proof (rule closed_under_edges [OF path])
    show "MicSource \<in> {MicSource, Merger, StreamDestination, Analyser}"
      by simp
  next
    fix x y
    assume "(x, y) \<in> set (fst (mixGraph v pf s))"
      and "x \<in> {MicSource, Merger, StreamDestination, Analyser}"
    then show "y \<in> {MicSource, Merger, StreamDestination, Analyser}"
      by (cases v) (auto simp: mixGraph_edges)
  qed
  then show False
    by simp
qed

lemma sources_reach_destination:
  "(TabSource, StreamDestination) \<in> (set (fst (mixGraph v pf s)))\<^sup>+
   \<and> (MicSource, StreamDestination) \<in> (set (fst (mixGraph v pf s)))\<^sup>+
   \<and> (TabSource, Speakers) \<in> set (fst (mixGraph v pf s))"
proof (cases v)
  case Basic
  then show ?thesis
    by (auto simp: mixGraph_edges)
next
  case Visualizing
  have "(TabSource, Merger) \<in> set (fst (mixGraph v pf s))"
    and "(MicSource, Merger) \<in> set (fst (mixGraph v pf s))"
    and "(Merger, StreamDestination) \<in> set (fst (mixGraph v pf s))"
    and "(TabSource, Speakers) \<in> set (fst (mixGraph v pf s))"
    using Visualizing by (simp_all add: mixGraph_edges)
  then show ?thesis
    by (meson trancl.intros)
qed

lemma startRecording_mixing:
  assumes "mode p = ''both''" and "deviceId p \<noteq> []"
    and "getMediaStreamId pf (tabId p) = Inr sid"
    and "getUserMedia pf (TabCapture sid) = Inr tabStream"
    and "getUserMedia pf (Microphone (deviceId p)) = Inr micStr"
  shows "startRecording v pf p s =
     (snd (mixGraph v pf (logEffect (GetUserMedia (Microphone (deviceId p)))
        (stopTracks (getVideoTracks tabStream)
         (logEffect (GetUserMedia (TabCapture sid)) (logEffect (GetMediaStreamId (tabId p)) s))))))
       \<lparr>audioContextRef := Some (fst (mixGraph v pf s)),
        streamRef := Some tabStream, micStream := Some micStr, chunksRef := [],
        mediaRecorderRef := Some \<lparr>recState = Capturing, recInput = Mixed\<rparr>,
        startTimeRef := dateNow pf, status := recording\<rparr>"
  using assms by (simp add: startRecording_def tryStart_def Let_def mixGraph_edges)

lemma startRecording_both_without_mic:
  assumes "mode p = ''both''" and "deviceId p = []"
    and "getMediaStreamId pf (tabId p) = Inr sid"
    and "getUserMedia pf (TabCapture sid) = Inr tabStream"
  shows "audioContextRef (startRecording v pf p s) = Some (fst (tabGraph v pf s))"
    and "mediaRecorderRef (startRecording v pf p s)
          = Some \<lparr>recState = Capturing, recInput = Direct tabStream\<rparr>"
  using assms by (simp_all add: startRecording_def tryStart_def Let_def tabGraph_edges)

lemma tab_graph_paths:
  "(MicSource, Speakers) \<notin> (set (fst (tabGraph v pf s)))\<^sup>+
   \<and> (TabSource, StreamDestination) \<notin> (set (fst (tabGraph v pf s)))\<^sup>+
   \<and> (MicSource, StreamDestination) \<notin> (set (fst (tabGraph v pf s)))\<^sup>+
   \<and> (TabSource, Speakers) \<in> set (fst (tabGraph v pf s))"
proof (intro conjI)
  have closed_mic: "\<And>x y. (x, y) \<in> set (fst (tabGraph v pf s)) \<Longrightarrow>
      x \<in> {MicSource} \<Longrightarrow> y \<in> {MicSource}"
    by (cases v) (auto simp: tabGraph_edges)
  show "(MicSource, Speakers) \<notin> (set (fst (tabGraph v pf s)))\<^sup>+"
  proof
    assume "(MicSource, Speakers) \<in> (set (fst (tabGraph v pf s)))\<^sup>+"
    then have "Speakers \<in> {MicSource}"
      by (rule closed_under_edges) (simp, rule closed_mic)
    then show False
      by simp
  qed
  show "(MicSource, StreamDestination) \<notin> (set (fst (tabGraph v pf s)))\<^sup>+"
  proof
    assume "(MicSource, StreamDestination) \<in> (set (fst (tabGraph v pf s)))\<^sup>+"
    then have "StreamDestination \<in> {MicSource}"
      by (rule closed_under_edges) (simp, rule closed_mic)
    then show False
      by simp
  qed
  have closed_tab: "\<And>x y. (x, y) \<in> set (fst (tabGraph v pf s)) \<Longrightarrow>
      x \<in> {TabSource, Speakers, Analyser} \<Longrightarrow> y \<in> {TabSource, Speakers, Analyser}"
    by (cases v) (auto simp: tabGraph_edges)
  show "(TabSource, StreamDestination) \<notin> (set (fst (tabGraph v pf s)))\<^sup>+"
  proof
    assume "(TabSource, StreamDestination) \<in> (set (fst (tabGraph v pf s)))\<^sup>+"
    then have "StreamDestination \<in> {TabSource, Speakers, Analyser}"
      by (rule closed_under_edges) (simp, rule closed_tab)
    then show False
      by simp
  qed
  show "(TabSource, Speakers) \<in> set (fst (tabGraph v pf s))"
    by (simp add: tabGraph_edges split: Variant.splits)
qed

lemma both_empty_deviceId_context:
  "audioContextRef
     (startRecording Basic grantingPlatform \<lparr>mode = ''both'', deviceId = [], tabId = 5\<rparr>
        (initialSession emptyDatabase)) = Some [(TabSource, Speakers)]"
  by code_simp

lemma both_empty_deviceId_encoder:
  "mediaRecorderRef
     (startRecording Basic grantingPlatform \<lparr>mode = ''both'', deviceId = [], tabId = 5\<rparr>
        (initialSession emptyDatabase))
     = Some \<lparr>recState = Capturing, recInput = Direct tabTracks\<rparr>"
  by code_simp

lemma speakers_only_graph_paths:
  "(TabSource, StreamDestination) \<notin> (set [(TabSource, Speakers)])\<^sup>+
   \<and> (MicSource, StreamDestination) \<notin> (set [(TabSource, Speakers)])\<^sup>+"
  using tab_graph_paths [of Basic grantingPlatform "initialSession emptyDatabase"]
  by (simp add: tabGraph_edges)

text \<open>
  Claim C8, as stated: in every session with mode \<open>both\<close> the tab source is connected,
  together with the microphone source, to the destination stream handed to the encoder.
  On the code, a session with mode \<open>both\<close> and an empty device id builds the tab-only
  graph: its only connection is from the tab source to the speakers, neither source has a
  path to a stream destination, and the encoder is given the tab stream itself.
\<close>

theorem both_without_deviceId_has_no_mixing_counterexample:
  "audioContextRef
     (startRecording Basic grantingPlatform \<lparr>mode = ''both'', deviceId = [], tabId = 5\<rparr>
        (initialSession emptyDatabase)) = Some [(TabSource, Speakers)]
   \<and> (TabSource, StreamDestination) \<notin> (set [(TabSource, Speakers)])\<^sup>+
   \<and> (MicSource, StreamDestination) \<notin> (set [(TabSource, Speakers)])\<^sup>+
   \<and> mediaRecorderRef
        (startRecording Basic grantingPlatform \<lparr>mode = ''both'', deviceId = [], tabId = 5\<rparr>
           (initialSession emptyDatabase))
       = Some \<lparr>recState = Capturing, recInput = Direct tabTracks\<rparr>"
  using both_empty_deviceId_context speakers_only_graph_paths both_empty_deviceId_encoder
  by blast

text \<open>
  Claim C8, amended: in every session with mode \<open>both\<close> whose streams are acquired, the
  audio graph has no path from the microphone source to the speakers and connects the tab
  source to the speakers. With a device id, the tab source and the microphone source both
  have a path to the stream destination, whose stream is the encoder's input. With an
  empty device id no mixing graph is built: neither source has a path to a stream
  destination and the tab stream itself is the encoder's input. This holds in the plain
  and in the visualising recorder.
\<close>

theorem both_mode_graph_keeps_mic_off_speakers:
  assumes "mode p = ''both''"
    and "getMediaStreamId pf (tabId p) = Inr sid"
    and "getUserMedia pf (TabCapture sid) = Inr tabStream"
    and "deviceId p \<noteq> [] \<longrightarrow> getUserMedia pf (Microphone (deviceId p)) = Inr micStr"
  shows "\<exists>ctx. audioContextRef (startRecording v pf p s) = Some ctx
     \<and> (MicSource, Speakers) \<notin> (set ctx)\<^sup>+
     \<and> (TabSource, Speakers) \<in> set ctx
     \<and> (deviceId p \<noteq> [] \<longrightarrow>
           (TabSource, StreamDestination) \<in> (set ctx)\<^sup>+
         \<and> (MicSource, StreamDestination) \<in> (set ctx)\<^sup>+
         \<and> mediaRecorderRef (startRecording v pf p s)
             = Some \<lparr>recState = Capturing, recInput = Mixed\<rparr>)
     \<and> (deviceId p = [] \<longrightarrow>
           (TabSource, StreamDestination) \<notin> (set ctx)\<^sup>+
         \<and> (MicSource, StreamDestination) \<notin> (set ctx)\<^sup>+
         \<and> mediaRecorderRef (startRecording v pf p s)
             = Some \<lparr>recState = Capturing, recInput = Direct tabStream\<rparr>)"
proof (cases "deviceId p = []")
  case True
  note tab_only = startRecording_both_without_mic [OF assms(1) True assms(2,3), of v s]
  show ?thesis
    using True tab_only tab_graph_paths [of v pf s] by blast
next
  case False
  then have mic: "getUserMedia pf (Microphone (deviceId p)) = Inr micStr"
    using assms(4) by blast
  have ctx: "audioContextRef (startRecording v pf p s) = Some (fst (mixGraph v pf s))"
    and enc: "mediaRecorderRef (startRecording v pf p s)
         = Some \<lparr>recState = Capturing, recInput = Mixed\<rparr>"
    by (simp_all add: startRecording_mixing [OF assms(1) False assms(2,3) mic])
  show ?thesis
    using False ctx enc mic_never_reaches_speakers [of v pf s]
      sources_reach_destination [of v pf s]
    by blast
qed

theorem both_mode_graph_keeps_mic_off_speakers_witness:
  "mediaRecorderRef
     (startRecording Visualizing grantingPlatform
        \<lparr>mode = ''both'', deviceId = ''mic-1'', tabId = 5\<rparr> (initialSession emptyDatabase))
     = Some \<lparr>recState = Capturing, recInput = Mixed\<rparr>
   \<and> mediaRecorderRef
     (startRecording Visualizing grantingPlatform
        \<lparr>mode = ''both'', deviceId = [], tabId = 5\<rparr> (initialSession emptyDatabase))
     = Some \<lparr>recState = Capturing, recInput = Direct tabTracks\<rparr>"
proof -
  have both: "mode \<lparr>mode = ''both'', deviceId = ''mic-1'', tabId = 5\<rparr> = ''both''"
    and dev: "deviceId \<lparr>mode = ''both'', deviceId = ''mic-1'', tabId = 5\<rparr> \<noteq> []"
    and sid: "getMediaStreamId grantingPlatform
        (tabId \<lparr>mode = ''both'', deviceId = ''mic-1'', tabId = 5\<rparr>) = Inr ''stream-1''"
    and mic: "deviceId \<lparr>mode = ''both'', deviceId = ''mic-1'', tabId = 5\<rparr> \<noteq> [] \<longrightarrow>
        getUserMedia grantingPlatform
          (Microphone (deviceId \<lparr>mode = ''both'', deviceId = ''mic-1'', tabId = 5\<rparr>))
          = Inr micTracks"
    by (simp_all add: grantingPlatform_def)
  have both0: "mode \<lparr>mode = ''both'', deviceId = [], tabId = 5\<rparr> = ''both''"
    and dev0: "deviceId \<lparr>mode = ''both'', deviceId = [], tabId = 5\<rparr> = []"
    and sid0: "getMediaStreamId grantingPlatform
        (tabId \<lparr>mode = ''both'', deviceId = [], tabId = 5\<rparr>) = Inr ''stream-1''"
    and mic0: "deviceId \<lparr>mode = ''both'', deviceId = [], tabId = 5\<rparr> \<noteq> [] \<longrightarrow>
        getUserMedia grantingPlatform
          (Microphone (deviceId \<lparr>mode = ''both'', deviceId = [], tabId = 5\<rparr>))
          = Inr micTracks"
    by (simp_all add: grantingPlatform_def)
  from both_mode_graph_keeps_mic_off_speakers
         [OF both sid granted_tab mic, of Visualizing "initialSession emptyDatabase"] dev
  have mixed: "mediaRecorderRef
     (startRecording Visualizing grantingPlatform
        \<lparr>mode = ''both'', deviceId = ''mic-1'', tabId = 5\<rparr> (initialSession emptyDatabase))
     = Some \<lparr>recState = Capturing, recInput = Mixed\<rparr>"
    by blast
  from both_mode_graph_keeps_mic_off_speakers
         [OF both0 sid0 granted_tab mic0, of Visualizing "initialSession emptyDatabase"] dev0
  have direct: "mediaRecorderRef
     (startRecording Visualizing grantingPlatform
        \<lparr>mode = ''both'', deviceId = [], tabId = 5\<rparr> (initialSession emptyDatabase))
     = Some \<lparr>recState = Capturing, recInput = Direct tabTracks\<rparr>"
    by blast
  from mixed direct show ?thesis
    by blast
qed

subsection \<open>A start whose microphone request is refused\<close>

lemma startRecording_mic_refused:
  assumes "mode p = ''both''" and "deviceId p \<noteq> []"
    and "getMediaStreamId pf (tabId p) = Inr sid"
    and "getUserMedia pf (TabCapture sid) = Inr tabStream"
    and "getUserMedia pf (Microphone (deviceId p)) = Inl msg"
  shows "startRecording v pf p s =
     (logEffect (GetUserMedia (Microphone (deviceId p)))
        (stopTracks (getVideoTracks tabStream)
         (logEffect (GetUserMedia (TabCapture sid)) (logEffect (GetMediaStreamId (tabId p)) s))))
       \<lparr>error := Some msg, status := stopped\<rparr>"
  using assms by (simp add: startRecording_def tryStart_def Let_def)

lemma refused_status:
  "status (mount Basic micRefusingPlatform
             [(''mode'', ''both''), (''deviceId'', ''mic-1''), (''tabId'', ''5'')]
             (initialSession emptyDatabase)) = stopped"
  by code_simp

lemma refused_error:
  "error (mount Basic micRefusingPlatform
            [(''mode'', ''both''), (''deviceId'', ''mic-1''), (''tabId'', ''5'')]
            (initialSession emptyDatabase)) = Some ''Requested device not found''"
  by code_simp

lemma refused_tab_audio_live:
  "isLive (mount Basic micRefusingPlatform
             [(''mode'', ''both''), (''deviceId'', ''mic-1''), (''tabId'', ''5'')]
             (initialSession emptyDatabase)) \<lparr>trackId = 1, kind = AudioTrack\<rparr>"
  by code_simp

lemma refusing_tab: "getUserMedia micRefusingPlatform (TabCapture ''stream-1'') = Inr tabTracks"
  by (simp add: micRefusingPlatform_def)

lemma tab_audio_track: "\<lparr>trackId = 1, kind = AudioTrack\<rparr> \<in> set tabTracks"
  by (simp add: tabTracks_def)

text \<open>
  Claim C3, as stated: when a later acquisition step fails, every stream opened earlier in
  the attempt has all its tracks stopped before the session is stopped with the error. On
  the code, with mode \<open>both\<close> and a platform that grants the tab and refuses the
  microphone, the session is stopped with the error while the audio track of the tab
  stream it opened is still live.
\<close>

theorem refused_mic_leaves_tab_audio_counterexample:
  "getUserMedia micRefusingPlatform (TabCapture ''stream-1'') = Inr tabTracks
   \<and> \<lparr>trackId = 1, kind = AudioTrack\<rparr> \<in> set tabTracks
   \<and> status (mount Basic micRefusingPlatform
               [(''mode'', ''both''), (''deviceId'', ''mic-1''), (''tabId'', ''5'')]
               (initialSession emptyDatabase)) = stopped
   \<and> error (mount Basic micRefusingPlatform
               [(''mode'', ''both''), (''deviceId'', ''mic-1''), (''tabId'', ''5'')]
               (initialSession emptyDatabase)) = Some ''Requested device not found''
   \<and> isLive (mount Basic micRefusingPlatform
               [(''mode'', ''both''), (''deviceId'', ''mic-1''), (''tabId'', ''5'')]
               (initialSession emptyDatabase)) \<lparr>trackId = 1, kind = AudioTrack\<rparr>"
  using refusing_tab tab_audio_track refused_status refused_error refused_tab_audio_live
  by blast

text \<open>
  Claim C3, amended: when the microphone request of a mode \<open>both\<close> start is rejected after
  the tab stream was opened, the session is stopped with the rejection's message; of the
  tab stream exactly the video tracks have been stopped (they are stopped right after the
  capture), every other track of it that was live is still live, and the session keeps no
  handle on the stream and has no encoder.
\<close>

theorem refused_mic_stops_video_tracks_only:
  assumes "mode p = ''both''" and "deviceId p \<noteq> []"
    and "getMediaStreamId pf (tabId p) = Inr sid"
    and "getUserMedia pf (TabCapture sid) = Inr tabStream"
    and "getUserMedia pf (Microphone (deviceId p)) = Inl msg"
  shows "status (startRecording v pf p s) = stopped
     \<and> error (startRecording v pf p s) = Some msg
     \<and> endedTracks (startRecording v pf p s)
          = endedTracks s \<union> trackId ` set (getVideoTracks tabStream)
     \<and> (\<forall>t\<in>set (getVideoTracks tabStream). \<not> isLive (startRecording v pf p s) t)
     \<and> (\<forall>t\<in>set tabStream. isLive s t \<and> trackId t \<notin> trackId ` set (getVideoTracks tabStream)
            \<longrightarrow> isLive (startRecording v pf p s) t)
     \<and> streamRef (startRecording v pf p s) = streamRef s
     \<and> micStream (startRecording v pf p s) = micStream s
     \<and> mediaRecorderRef (startRecording v pf p s) = mediaRecorderRef s"
  by (auto simp: startRecording_mic_refused [OF assms] logEffect_def stopTracks_def isLive_def)

theorem refused_mic_stops_video_tracks_only_witness:
  "status (startRecording Basic micRefusingPlatform
             \<lparr>mode = ''both'', deviceId = ''mic-1'', tabId = 5\<rparr> (initialSession emptyDatabase))
     = stopped
   \<and> endedTracks (startRecording Basic micRefusingPlatform
             \<lparr>mode = ''both'', deviceId = ''mic-1'', tabId = 5\<rparr> (initialSession emptyDatabase))
     = endedTracks (initialSession emptyDatabase) \<union> trackId ` set (getVideoTracks tabTracks)
   \<and> streamRef (startRecording Basic micRefusingPlatform
             \<lparr>mode = ''both'', deviceId = ''mic-1'', tabId = 5\<rparr> (initialSession emptyDatabase))
     = streamRef (initialSession emptyDatabase)"
proof -
  have both: "mode \<lparr>mode = ''both'', deviceId = ''mic-1'', tabId = 5\<rparr> = ''both''"
    and dev: "deviceId \<lparr>mode = ''both'', deviceId = ''mic-1'', tabId = 5\<rparr> \<noteq> []"
    and sid: "getMediaStreamId micRefusingPlatform
        (tabId \<lparr>mode = ''both'', deviceId = ''mic-1'', tabId = 5\<rparr>) = Inr ''stream-1''"
    and mic: "getUserMedia micRefusingPlatform
        (Microphone (deviceId \<lparr>mode = ''both'', deviceId = ''mic-1'', tabId = 5\<rparr>))
          = Inl ''Requested device not found''"
    by (simp_all add: micRefusingPlatform_def)
  from refused_mic_stops_video_tracks_only [OF both dev sid refusing_tab mic]
  show ?thesis
    by blast
qed

subsection \<open>Stopping twice\<close>

lemma stopRecording_kept:
  "status (stopRecording v s) = status s"
  "duration (stopRecording v s) = duration s"
  "error (stopRecording v s) = error s"
  "chunksRef (stopRecording v s) = chunksRef s"
  "streamRef (stopRecording v s) = streamRef s"
  "micStream (stopRecording v s) = micStream s"
  "startTimeRef (stopRecording v s) = startTimeRef s"
  "database (stopRecording v s) = database s"
  by (simp_all add: stopRecording_def Let_def logEffect_def stopTracks_def
        split: option.splits Variant.splits)

lemma stopRecording_released:
  "audioContextRef (stopRecording v s) = None"
  "timers (stopRecording v s) = timers s @ [duration s]"
  "mediaRecorderRef (stopRecording v s)
     = map_option (\<lambda>m. m\<lparr>recState := Inactive\<rparr>) (mediaRecorderRef s)"
  by (simp_all add: stopRecording_def Let_def logEffect_def stopTracks_def
        split: option.splits Variant.splits)

lemma stopRecording_visual:
  "audioLevels (stopRecording v s)
     = (case v of Basic \<Rightarrow> audioLevels s | Visualizing \<Rightarrow> replicate NUM_BARS (Some 0))"
  "analyserRef (stopRecording v s) = (case v of Basic \<Rightarrow> analyserRef s | Visualizing \<Rightarrow> False)"
  "animationRef (stopRecording v s) = (case v of Basic \<Rightarrow> animationRef s | Visualizing \<Rightarrow> False)"
  by (simp_all add: stopRecording_def Let_def logEffect_def stopTracks_def
        split: option.splits Variant.splits)

lemma stopRecording_endedTracks:
  "endedTracks (stopRecording v s)
     = endedTracks s \<union>
       (case streamRef s of None \<Rightarrow> {}
        | Some a \<Rightarrow> trackId ` set a \<union>
            (case micStream s of None \<Rightarrow> {} | Some b \<Rightarrow> trackId ` set b))"
  by (simp add: stopRecording_def Let_def logEffect_def stopTracks_def Un_assoc
        split: option.splits Variant.splits)

lemma stopRecording_effects:
  "effects (stopRecording v s)
     = effects s
       @ (case mediaRecorderRef s of None \<Rightarrow> []
          | Some m \<Rightarrow> if recState m \<noteq> Inactive then [EncoderStop] else [])
       @ (case audioContextRef s of None \<Rightarrow> [] | Some c \<Rightarrow> [ContextClose])"
  by (simp add: stopRecording_def Let_def logEffect_def stopTracks_def
        split: option.splits Variant.splits)

text \<open>
  A second call of \<open>stopRecording\<close> finds the encoder inactive, the tracks stopped and
  the context released; all it does is to leave one more timer.
\<close>

lemma stopRecording_twice:
  "stopRecording v (stopRecording v s)
     = (stopRecording v s)\<lparr>timers := timers (stopRecording v s) @ [duration s]\<rparr>"
proof (rule Session.equality)
  show "endedTracks (stopRecording v (stopRecording v s))
      = endedTracks ((stopRecording v s)\<lparr>timers := timers (stopRecording v s) @ [duration s]\<rparr>)"
    by (auto simp: stopRecording_endedTracks stopRecording_kept split: option.splits)
  show "effects (stopRecording v (stopRecording v s))
      = effects ((stopRecording v s)\<lparr>timers := timers (stopRecording v s) @ [duration s]\<rparr>)"
    by (simp add: stopRecording_effects [of v "stopRecording v s"] stopRecording_released
          split: option.splits)
  show "mediaRecorderRef (stopRecording v (stopRecording v s))
      = mediaRecorderRef ((stopRecording v s)\<lparr>timers := timers (stopRecording v s) @ [duration s]\<rparr>)"
    by (simp add: stopRecording_released option.map_comp comp_def)
qed (simp_all add: stopRecording_kept stopRecording_released stopRecording_visual
       split: Variant.splits)

lemma saveCallback_effects:
  "effects (saveCallback clk d s)
     = effects s @ (if concat (chunksRef s) = [] then []
                    else [SaveRecording (concat (chunksRef s)) d])"
  by (simp add: saveCallback_def Let_def logEffect_def split: sum.splits)

lemma saveCallback_kept:
  "chunksRef (saveCallback clk d s) = chunksRef s"
  "timers (saveCallback clk d s) = timers s"
  "status (saveCallback clk d s) = stopped"
  by (simp_all add: saveCallback_def Let_def logEffect_def split: sum.splits)

lemma recordingSession_status: "status recordingSession = recording"
  by code_simp

lemma recordingSession_timers: "timers recordingSession = []"
  by code_simp

lemma recordingSession_chunks: "concat (chunksRef recordingSession) = [26, 69, 223, 163]"
  by code_simp

lemma stoppedTwice_saveCalls: "saveCalls stoppedTwice = 2"
  by code_simp

lemma stoppedTwice_first_record:
  "map_option recBlob (objects (database stoppedTwice) ''rec-1100-4fzyo82'')
     = Some [26, 69, 223, 163]"
  by code_simp

lemma stoppedTwice_second_record:
  "map_option recBlob (objects (database stoppedTwice) ''rec-1101-9k2j7qx'')
     = Some [26, 69, 223, 163]"
  by code_simp

text \<open>
  Claim C1, as stated: two calls of stop in succession on a recording session give one
  assembled artifact and one call of the store's create operation. On the code, for a
  recording session holding one chunk, the two calls leave two timers; when both have
  fired, create has been called twice and the store holds two records with the same audio.
\<close>

theorem stop_twice_saves_twice_counterexample:
  "status recordingSession = recording
   \<and> saveCalls stoppedTwice = 2
   \<and> map_option recBlob (objects (database stoppedTwice) ''rec-1100-4fzyo82'')
       = Some [26, 69, 223, 163]
   \<and> map_option recBlob (objects (database stoppedTwice) ''rec-1101-9k2j7qx'')
       = Some [26, 69, 223, 163]"
  using recordingSession_status stoppedTwice_saveCalls stoppedTwice_first_record
    stoppedTwice_second_record
  by blast

lemma run_append: "run v s (xs @ ys) = run v (run v s xs) ys"
  by (simp add: run_def)

lemma run_Cons: "run v s (e # es) = run v (step v s e) es"
  by (simp add: run_def)

lemma quiet_step:
  assumes "isQuiet e" and "mediaRecorderRef s = Some m"
  shows "effects (step v s e) = effects s \<and> timers (step v s e) = timers s
     \<and> mediaRecorderRef (step v s e) = Some m
     \<and> chunksRef (step v s e) = chunksRef s @ deliveredChunks [e]"
  using assms
  by (cases e) (simp_all add: isQuiet_def ondataavailable_def updateAudioLevels_def)

lemma deliveredChunks_Cons: "deliveredChunks (e # es) = deliveredChunks [e] @ deliveredChunks es"
  by (cases e) simp_all

lemma quiet_run:
  assumes "list_all isQuiet evs" and "mediaRecorderRef s = Some m"
  shows "effects (run v s evs) = effects s \<and> timers (run v s evs) = timers s
     \<and> mediaRecorderRef (run v s evs) = Some m
     \<and> chunksRef (run v s evs) = chunksRef s @ deliveredChunks evs"
  using assms
proof (induction evs arbitrary: s)
  case Nil
  then show ?case
    by (simp add: run_def)
next
  case (Cons e evs)
  have quiet: "isQuiet e" and rest: "list_all isQuiet evs"
    using Cons.prems(1) by simp_all
  note one = quiet_step [OF quiet Cons.prems(2), of v]
  have enc: "mediaRecorderRef (step v s e) = Some m"
    using one by blast
  note more = Cons.IH [OF rest enc]
  show ?case
    unfolding run_Cons using one more deliveredChunks_Cons [of e evs] by simp
qed

lemma saveCallback_encoder:
  "mediaRecorderRef (saveCallback clk d s) = mediaRecorderRef s"
  by (simp add: saveCallback_def Let_def logEffect_def split: sum.splits)

lemma saveCallback_log:
  "effects (saveCallback clk d s) = effects s @ createCall (chunksRef s) d"
  by (simp add: saveCallback_effects createCall_def)

lemma stop_twice_absolute:
  assumes "mediaRecorderRef s = Some m" and "recState m \<noteq> Inactive" and "timers s = []"
  shows "effects (stopRecording v (stopRecording v s))
        = effects s @ [EncoderStop]
          @ (case audioContextRef s of None \<Rightarrow> [] | Some c \<Rightarrow> [ContextClose])"
    and "mediaRecorderRef (stopRecording v (stopRecording v s)) = Some (m\<lparr>recState := Inactive\<rparr>)"
    and "audioContextRef (stopRecording v (stopRecording v s)) = None"
    and "timers (stopRecording v (stopRecording v s)) = [duration s, duration s]"
    and "chunksRef (stopRecording v (stopRecording v s)) = chunksRef s"
    and "endedTracks (stopRecording v (stopRecording v s))
        = endedTracks s \<union>
          (case streamRef s of None \<Rightarrow> {}
           | Some a \<Rightarrow> trackId ` set a \<union>
               (case micStream s of None \<Rightarrow> {} | Some b \<Rightarrow> trackId ` set b))"
  using assms
  by (simp_all add: stopRecording_twice [of v s] stopRecording_effects stopRecording_released
        stopRecording_kept stopRecording_endedTracks)

text \<open>
  A session that \<open>startRecording\<close> leaves in the recording state has an active encoder.
\<close>

lemma started_session_encoder_active:
  assumes "status (startRecording v pf p s) = recording"
  shows "\<exists>m. mediaRecorderRef (startRecording v pf p s) = Some m \<and> recState m = Capturing"
  using assms
  by (cases "tryStart v pf p s") (auto simp: startRecording_def split: prod.splits)

lemma recordingSession_encoder:
  "mediaRecorderRef recordingSession
     = Some \<lparr>recState = Capturing, recInput = Direct tabTracks\<rparr>"
  by code_simp

text \<open>
  Claim C1, amended: stop is not guarded. Take a session in the recording state whose
  encoder is active and that has no stop pending. Two clicks on the stop button are two
  calls of \<open>stopRecording\<close>. Together they stop the encoder once and close the audio
  context once, end every track of the streams the session holds, and leave two pending
  saves, each holding the duration at the stop; the second call adds nothing to the first
  but its pending save. Whatever chunks the encoder still delivers before the first timer
  and between the two timers, each timer assembles the chunks present when it fires and
  calls create with the artifact exactly when that artifact is not empty; after the second
  timer the session is stopped and no save is pending. So the store's create is called
  twice whenever chunks are present when the first timer fires.
\<close>

theorem stop_twice_schedules_two_saves:
  assumes "status s = recording" and "timers s = []"
    and "mediaRecorderRef s = Some m" and "recState m \<noteq> Inactive"
    and "list_all isQuiet evs1" and "list_all isQuiet evs2"
  shows "run v s [ClickStop, ClickStop] = stopRecording v (stopRecording v s)
     \<and> effects (stopRecording v (stopRecording v s))
          = effects s @ [EncoderStop]
            @ (case audioContextRef s of None \<Rightarrow> [] | Some c \<Rightarrow> [ContextClose])
     \<and> mediaRecorderRef (stopRecording v (stopRecording v s)) = Some (m\<lparr>recState := Inactive\<rparr>)
     \<and> audioContextRef (stopRecording v (stopRecording v s)) = None
     \<and> endedTracks (stopRecording v (stopRecording v s))
          = endedTracks s \<union>
            (case streamRef s of None \<Rightarrow> {}
             | Some a \<Rightarrow> trackId ` set a \<union>
                 (case micStream s of None \<Rightarrow> {} | Some b \<Rightarrow> trackId ` set b))
     \<and> timers (stopRecording v (stopRecording v s)) = [duration s, duration s]
     \<and> stopRecording v (stopRecording v s)
          = (stopRecording v s)\<lparr>timers := [duration s, duration s]\<rparr>
     \<and> effects (run v (stopRecording v (stopRecording v s))
                  (evs1 @ [TimerFires c1] @ evs2 @ [TimerFires c2]))
          = effects s @ [EncoderStop]
            @ (case audioContextRef s of None \<Rightarrow> [] | Some c \<Rightarrow> [ContextClose])
            @ createCall (chunksRef s @ deliveredChunks evs1) (duration s)
            @ createCall (chunksRef s @ deliveredChunks evs1 @ deliveredChunks evs2) (duration s)
     \<and> status (run v (stopRecording v (stopRecording v s))
                  (evs1 @ [TimerFires c1] @ evs2 @ [TimerFires c2])) = stopped
     \<and> timers (run v (stopRecording v (stopRecording v s))
                  (evs1 @ [TimerFires c1] @ evs2 @ [TimerFires c2])) = []"
proof -
  let ?s2 = "stopRecording v (stopRecording v s)"
  let ?m = "m\<lparr>recState := Inactive\<rparr>"
  let ?d = "duration s"
  note released = stop_twice_absolute [OF assms(3,4,2), of v]
  have clicks: "run v s [ClickStop, ClickStop] = ?s2"
    using assms(1) by (simp add: run_def stopRecording_kept)
  have twice: "?s2 = (stopRecording v s)\<lparr>timers := [?d, ?d]\<rparr>"
    using assms(2) by (simp add: stopRecording_twice [of v s] stopRecording_released)
  let ?s3 = "run v ?s2 evs1"
  note before = quiet_run [OF assms(5) released(2), of v]
  let ?s4 = "saveCallback c1 ?d (?s3\<lparr>timers := [?d]\<rparr>)"
  have fire1: "run v ?s3 [TimerFires c1] = ?s4"
    using before released(4) by (simp add: run_def)
  have enc4: "mediaRecorderRef ?s4 = Some ?m"
    using before by (simp add: saveCallback_encoder)
  let ?s5 = "run v ?s4 evs2"
  note between = quiet_run [OF assms(6) enc4, of v]
  let ?s6 = "saveCallback c2 ?d (?s5\<lparr>timers := []\<rparr>)"
  have fire2: "run v ?s5 [TimerFires c2] = ?s6"
    using between by (simp add: run_def saveCallback_kept)
  have whole: "run v ?s2 (evs1 @ [TimerFires c1] @ evs2 @ [TimerFires c2]) = ?s6"
    by (simp only: run_append fire1 fire2)
  have logged: "effects ?s6 = effects s @ [EncoderStop]
            @ (case audioContextRef s of None \<Rightarrow> [] | Some c \<Rightarrow> [ContextClose])
            @ createCall (chunksRef s @ deliveredChunks evs1) ?d
            @ createCall (chunksRef s @ deliveredChunks evs1 @ deliveredChunks evs2) ?d"
    using before between released(1) released(5)
    by (simp add: saveCallback_log saveCallback_kept)
  have final: "status ?s6 = stopped" "timers ?s6 = []"
    by (simp_all add: saveCallback_kept)
  show ?thesis
    unfolding whole using clicks released twice logged final by blast
qed

theorem stop_twice_schedules_two_saves_witness:
  "mediaRecorderRef (stopRecording Basic (stopRecording Basic recordingSession))
     = Some (\<lparr>recState = Capturing, recInput = Direct tabTracks\<rparr>\<lparr>recState := Inactive\<rparr>)
   \<and> effects (run Basic (stopRecording Basic (stopRecording Basic recordingSession))
                ([DataAvailable [7, 9]] @ [TimerFires firstClock] @ [] @ [TimerFires secondClock]))
       = effects recordingSession @ [EncoderStop]
         @ (case audioContextRef recordingSession of None \<Rightarrow> [] | Some c \<Rightarrow> [ContextClose])
         @ createCall (chunksRef recordingSession @ deliveredChunks [DataAvailable [7, 9]])
             (duration recordingSession)
         @ createCall (chunksRef recordingSession @ deliveredChunks [DataAvailable [7, 9]]
                         @ deliveredChunks []) (duration recordingSession)
   \<and> status (run Basic (stopRecording Basic (stopRecording Basic recordingSession))
                ([DataAvailable [7, 9]] @ [TimerFires firstClock] @ [] @ [TimerFires secondClock]))
       = stopped"
proof -
  have active: "recState \<lparr>recState = Capturing, recInput = Direct tabTracks\<rparr> \<noteq> Inactive"
    by simp
  have quiet1: "list_all isQuiet [DataAvailable [7, 9]]"
    by (simp add: isQuiet_def)
  have quiet2: "list_all isQuiet []"
    by simp
  from stop_twice_schedules_two_saves
         [OF recordingSession_status recordingSession_timers recordingSession_encoder active
             quiet1 quiet2, of Basic firstClock secondClock]
  show ?thesis
    by blast
qed

subsection \<open>Error and status\<close>

lemma error_stopped_step:
  assumes "error s \<noteq> None \<longrightarrow> status s = stopped"
  shows "error (step v s e) \<noteq> None \<longrightarrow> status (step v s e) = stopped"
proof (cases e)
  case ClickStop
  then show ?thesis
    using assms by (auto simp: stopRecording_kept)
next
  case (DataAvailable dat)
  then show ?thesis
    using assms by (auto simp: ondataavailable_def split: option.splits)
next
  case (Tick now)
  then show ?thesis
    using assms by auto
next
  case (TimerFires clk)
  then show ?thesis
    using assms by (auto simp: saveCallback_kept split: list.splits)
next
  case (AnimationFrame dat)
  then show ?thesis
    using assms by (auto simp: updateAudioLevels_def)
next
  case (StoreBroken b)
  then show ?thesis
    using assms by auto
qed

lemma error_stopped_run:
  "error s \<noteq> None \<longrightarrow> status s = stopped \<Longrightarrow>
   error (run v s evs) \<noteq> None \<longrightarrow> status (run v s evs) = stopped"
proof (induction evs arbitrary: s)
  case Nil
  then show ?case
    by (simp add: run_def)
next
  case (Cons e evs)
  have "run v s (e # evs) = run v (step v s e) evs"
    by (simp add: run_def)
  then show ?case
    using Cons.IH [OF error_stopped_step [OF Cons.prems]] by simp
qed

lemma error_stopped_startRecording:
  "error (startRecording v pf p s) \<noteq> None \<longrightarrow>
     status (startRecording v pf p s) = stopped \<or> error s \<noteq> None"
  by (simp add: startRecording_def tryStart_def Let_def tabGraph_session mixGraph_session
        setupAnalyser_def updateAudioLevels_def logEffect_def stopTracks_def
        split: sum.splits prod.splits Variant.splits)

text \<open>
  Once \<open>startRecording\<close> has been called, on every path (acquisition failure, save
  failure, normal stop) an error implies the status \<open>stopped\<close>.
\<close>

lemma error_implies_stopped_once_started:
  "error (run v (startRecording v pf p (initialSession db)) evs) \<noteq> None \<longrightarrow>
   status (run v (startRecording v pf p (initialSession db)) evs) = stopped"
proof (rule error_stopped_run)
  have "error (initialSession db) = None"
    by (simp add: initialSession_def)
  then show "error (startRecording v pf p (initialSession db)) \<noteq> None \<longrightarrow>
      status (startRecording v pf p (initialSession db)) = stopped"
    using error_stopped_startRecording [of v pf p "initialSession db"] by simp
qed

lemma idle_step:
  assumes "status s = starting" and "mediaRecorderRef s = None" and "timers s = []"
    and "\<not> animationRef s"
  shows "status (step v s e) = starting \<and> mediaRecorderRef (step v s e) = None
     \<and> timers (step v s e) = [] \<and> \<not> animationRef (step v s e)
     \<and> error (step v s e) = error s"
  using assms by (cases e) simp_all

lemma idle_run:
  assumes "status s = starting" and "mediaRecorderRef s = None" and "timers s = []"
    and "\<not> animationRef s"
  shows "status (run v s evs) = starting \<and> error (run v s evs) = error s"
  using assms
proof (induction evs arbitrary: s)
  case Nil
  then show ?case
    by (simp add: run_def)
next
  case (Cons e evs)
  have unfolded: "run v s (e # evs) = run v (step v s e) evs"
    by (simp add: run_def)
  have after: "status (step v s e) = starting \<and> mediaRecorderRef (step v s e) = None
     \<and> timers (step v s e) = [] \<and> \<not> animationRef (step v s e)
     \<and> error (step v s e) = error s"
    using Cons.prems by (rule idle_step)
  then show ?case
    using Cons.IH [of "step v s e"] unfolded by simp
qed

lemma getParams_missing_tabId: "getParams [(''mode'', ''tab'')] = None"
  by code_simp

text \<open>
  Claim C2, at the failing input: the query \<open>mode=tab\<close> without a tab id is rejected by
  \<open>getParams\<close>; the mount effect sets the error and returns, so the error is set while
  the status is \<open>starting\<close>, and no later event changes either.
\<close>

theorem rejected_parameters_error_while_starting:
  "error (run v (mount v pf [(''mode'', ''tab'')] (initialSession db)) evs)
     = Some ''Invalid parameters''
   \<and> status (run v (mount v pf [(''mode'', ''tab'')] (initialSession db)) evs) = starting"
proof -
  have rejected: "mount v pf [(''mode'', ''tab'')] (initialSession db)
     = (initialSession db)\<lparr>error := Some ''Invalid parameters''\<rparr>"
    by (simp add: mount_def getParams_missing_tabId)
  show ?thesis
    unfolding rejected
    using idle_run [of "(initialSession db)\<lparr>error := Some ''Invalid parameters''\<rparr>" v evs]
    by (simp add: initialSession_def)
qed

end
